theory Spec2Isabelle
  imports Main "HOL-Library.Sublist"
begin

section \<open>The media production pipelines of seeker\_server\<close>

text \<open>
  A shallow embedding of the four pipelines of the server: \<open>SlidesService.createVideo\<close>,
  \<open>createPodcast\<close> and \<open>createComic\<close> (slides.service.ts) and
  \<open>VideoService.produceCinematicExplainer\<close> (video.service.ts).

  The pipelines are effectful. The model threads a \<open>world\<close> through every statement: the
  in-memory \<open>processingQueue\<close>, the status columns of the \<open>lessons\<close> table, the local
  files, the storage bucket and the trace of the calls made to the outside. What the
  outside answers (the generative service, the media tool, the object store,
  \<open>JSON.parse\<close>) is not code of the repository; it is taken as a parameter, an
  environment record per pipeline. A \<open>throw\<close> is the value \<open>Thrown\<close>, carrying the world
  as it stood when the exception left the statement.

  Strings are lists of 8-bit characters. Console output and the text of the prompts are
  not modelled: a prompt appears only where building it can throw.
\<close>

subsection \<open>Data\<close>

datatype status = Processing | Ready | Failed

text \<open>
  The four job kinds, each with a status column of its own in the \<open>lessons\<close> table:
  \<open>video_status\<close>, \<open>podcast_status\<close>, \<open>comic_status\<close>, \<open>animated_video_status\<close>.
\<close>

datatype kind = SlideshowVideo | DialogueAudio | IllustratedStory | CinematicVideo

text \<open>The values \<open>JSON.parse\<close> returns. Numbers are integers here: no pipeline computes with them.\<close>

datatype json =
    JNull
  | JBool bool
  | JNum int
  | JStr string
  | JArr "json list"
  | JObj "(string \<times> json) list"

datatype error =
    TypeError
  | SyntaxError
  | ServiceError
  | MissingAsset
  | EmptyReply
  | ToolError
  | FsError
  | StorageError

text \<open>
  What the pipelines do to the outside, in the order they do it. \<open>DbUpdate\<close> is an update
  of the lesson's row: the status written to the kind's column and the URLs stored with it.
  \<open>Ffmpeg\<close> is one run of the media tool: inputs, input options, complex filter, output
  options, output file. \<open>FfmpegMerge\<close> is fluent-ffmpeg's \<open>mergeToFile\<close>.
  \<open>Download\<close> names the remote file and the local path it is written to; \<open>Sleep\<close> is a
  wait in milliseconds.
\<close>

datatype event =
    DbUpdate kind string status "string list"
  | DbSelectStudent string
  | GenerateContent string
  | GenerateVideos string
  | Sleep nat
  | GetVideosOperation
  | Download string string
  | Upload string
  | WriteFile string string
  | Ffmpeg "string list" "string list" "string option" "string list" string
  | FfmpegMerge "string list" string

record world =
  processingQueue :: "string set"
  lessons :: "kind \<times> string \<Rightarrow> status option"
  files :: "string set"
  bucket :: "string set"
  trace :: "event list"

datatype 'a outcome = Done 'a world | Thrown error world

text \<open>An awaited call to the outside either rejects or resolves with a value.\<close>

datatype 'a call = Rejects | Resolves 'a

subsection \<open>Strings and paths\<close>

definition digit_char :: "nat \<Rightarrow> char" where
  "digit_char n = ''0123456789'' ! n"

fun show_nat :: "nat \<Rightarrow> string" where
  "show_nat n = (if n < 10 then [digit_char n] else show_nat (n div 10) @ [digit_char (n mod 10)])"

declare show_nat.simps [simp del]

definition show_int :: "int \<Rightarrow> string" where
  "show_int i = (if i < 0 then ''-'' @ show_nat (nat (- i)) else show_nat (nat i))"

text \<open>\<open>text.replace(/```json|```/g, '')\<close>: every fence marker is removed, left to right.\<close>

definition fence :: string where
  "fence = [CHR 0x60, CHR 0x60, CHR 0x60]"

fun strip_fences :: "string \<Rightarrow> string" where
  "strip_fences [] = []"
| "strip_fences (c # cs) =
     (if prefix (fence @ ''json'') (c # cs) then strip_fences (drop 6 cs)
      else if prefix fence (c # cs) then strip_fences (drop 2 cs)
      else c # strip_fences cs)"

declare strip_fences.simps [simp del]

text \<open>\<open>String.prototype.trim\<close>, on the white space of the 8-bit range.\<close>

definition is_space :: "char \<Rightarrow> bool" where
  "is_space c = (of_char c \<in> {9::nat, 10, 11, 12, 13, 32, 160})"

definition trim :: "string \<Rightarrow> string" where
  "trim s = rev (dropWhile is_space (rev (dropWhile is_space s)))"

text \<open>
  Paths are relative to \<open>process.cwd()\<close>. \<open>path.resolve(process.cwd(), 'temp', name)\<close> and
  \<open>path.join(dir, name)\<close> are modelled for a \<open>name\<close> that is one path segment (no
  normalisation of \<open>..\<close> or of separators inside the lesson id).
\<close>

definition path_join :: "string \<Rightarrow> string \<Rightarrow> string" where
  "path_join dir name = dir @ ''/'' @ name"

definition resolve_temp :: "string \<Rightarrow> string" where
  "resolve_temp name = path_join ''temp'' name"

definition basename :: "string \<Rightarrow> string" where
  "basename p = rev (takeWhile (\<lambda>c. c \<noteq> CHR ''/'') (rev p))"

fun join_lines :: "string list \<Rightarrow> string" where
  "join_lines [] = []"
| "join_lines [l] = l"
| "join_lines (l # ls) = l @ [CHR 0x0A] @ join_lines ls"

subsection \<open>Sanitising the text drawn onto a slide\<close>

text \<open>\<open>s.replace(/[^a-zA-Z0-9 ]/g, " ")\<close>: every character outside the class becomes a space.\<close>

definition safe_char :: "char \<Rightarrow> bool" where
  "safe_char c =
     (let n = (of_char c :: nat)
      in (97 \<le> n \<and> n \<le> 122) \<or> (65 \<le> n \<and> n \<le> 90) \<or> (48 \<le> n \<and> n \<le> 57) \<or> n = 32)"

definition clean :: "string \<Rightarrow> string" where
  "clean s = map (\<lambda>c. if safe_char c then c else CHR '' '') s"

text \<open>The bullet sign of the template, U+2022, in its UTF-8 bytes.\<close>

definition bullet_sign :: string where
  "bullet_sign = [CHR 0xE2, CHR 0x80, CHR 0xA2]"

definition title_filter :: "string \<Rightarrow> string \<Rightarrow> string" where
  "title_filter rawFontPath cleanTitle =
     ''drawtext=fontfile='' @ rawFontPath @ '':text='' @ [CHR 0x27] @ cleanTitle @ [CHR 0x27]
       @ '':x=100:y=150:fontsize=65:fontcolor=0x22c55e''"

definition bullet_filter :: "string \<Rightarrow> string \<Rightarrow> nat \<Rightarrow> string" where
  "bullet_filter rawFontPath bullet idx =
     '',drawtext=fontfile='' @ rawFontPath @ '':text='' @ [CHR 0x27] @ bullet_sign @ '' '' @ bullet
       @ [CHR 0x27] @ '':x=100:y='' @ show_nat (350 + idx * 80) @ '':fontsize=36:fontcolor=white''"

text \<open>The \<open>forEach\<close> over the cleaned bullets appends one drawtext per bullet, \<open>idx\<close> counting from 0.\<close>

fun bullet_filters :: "string \<Rightarrow> nat \<Rightarrow> string list \<Rightarrow> string" where
  "bullet_filters rawFontPath idx [] = []"
| "bullet_filters rawFontPath idx (b # bs) =
     bullet_filter rawFontPath b idx @ bullet_filters rawFontPath (Suc idx) bs"

definition drawtextFilters :: "string \<Rightarrow> string \<Rightarrow> string list \<Rightarrow> string" where
  "drawtextFilters rawFontPath title bullets =
     title_filter rawFontPath (clean title) @ bullet_filters rawFontPath 0 (map clean bullets)"

definition filterComplex :: "string \<Rightarrow> string \<Rightarrow> string list \<Rightarrow> string" where
  "filterComplex rawFontPath title bullets =
     ''[0:v]scale=960:960:force_original_aspect_ratio=increase,crop=960:960[scaled];''
     @ ''color=s=1920x1080:c=0x062012[bg];[bg][scaled]overlay=900:60,''
     @ drawtextFilters rawFontPath title bullets @ ''[outv]''"

subsection \<open>JavaScript values\<close>

text \<open>\<open>!x\<close> and \<open>x || d\<close> for a value that is a string or \<open>undefined\<close>.\<close>

definition falsy :: "string option \<Rightarrow> bool" where
  "falsy x = (case x of None \<Rightarrow> True | Some s \<Rightarrow> s = [])"

definition or_else :: "string option \<Rightarrow> string \<Rightarrow> string" where
  "or_else x d = (case x of None \<Rightarrow> d | Some s \<Rightarrow> if s = [] then d else s)"

text \<open>
  \<open>v.k\<close> for a parsed value: reading a property of \<open>null\<close> throws, an object gives the
  key's value or \<open>undefined\<close> (\<open>None\<close>), every other value has no such property.
\<close>

fun js_get :: "json \<Rightarrow> string \<Rightarrow> error + json option" where
  "js_get JNull k = Inl TypeError"
| "js_get (JObj kvs) k = Inr (map_of kvs k)"
| "js_get v k = Inr None"

text \<open>
  The values \<open>v[0], ..., v[v.length - 1]\<close> that \<open>for (let i = 0; i < v.length; i++)\<close>
  visits: the elements of an array, the characters of a string; \<open>null.length\<close> throws;
  for the other values \<open>v.length\<close> is \<open>undefined\<close> and the body never runs (an object
  with a key \<open>length\<close> of its own is outside the model).
\<close>

fun js_items :: "json \<Rightarrow> error + json list" where
  "js_items JNull = Inl TypeError"
| "js_items (JArr xs) = Inr xs"
| "js_items (JStr s) = Inr (map (\<lambda>c. JStr [c]) s)"
| "js_items v = Inr []"

text \<open>\<open>for (const x of v)\<close>: arrays and strings are iterable, nothing else JSON gives is.\<close>

fun js_iterate :: "json option \<Rightarrow> error + json list" where
  "js_iterate (Some (JArr xs)) = Inr xs"
| "js_iterate (Some (JStr s)) = Inr (map (\<lambda>c. JStr [c]) s)"
| "js_iterate v = Inl TypeError"

fun js_string :: "json \<Rightarrow> string option" where
  "js_string (JStr s) = Some s"
| "js_string v = None"

text \<open>What a template literal prints for a parsed value.\<close>

fun js_to_string :: "json \<Rightarrow> string" and js_join :: "json list \<Rightarrow> string" where
  "js_to_string JNull = ''null''"
| "js_to_string (JBool b) = (if b then ''true'' else ''false'')"
| "js_to_string (JNum i) = show_int i"
| "js_to_string (JStr s) = s"
| "js_to_string (JArr xs) = js_join xs"
| "js_to_string (JObj kvs) = ''[object Object]''"
| "js_join [] = []"
| "js_join (x # xs) =
     (if x = JNull then [] else js_to_string x) @ (if xs = [] then [] else '','' @ js_join xs)"

definition template :: "json option \<Rightarrow> string" where
  "template v = (case v of None \<Rightarrow> ''undefined'' | Some x \<Rightarrow> js_to_string x)"

subsection \<open>The world's primitives\<close>

definition emit :: "event \<Rightarrow> world \<Rightarrow> world" where
  "emit e w = w\<lparr>trace := trace w @ [e]\<rparr>"

definition existsSync :: "string \<Rightarrow> world \<Rightarrow> bool" where
  "existsSync p w = (p \<in> files w)"

definition inside :: "string \<Rightarrow> string \<Rightarrow> bool" where
  "inside dir p = (if p = dir then True else prefix (dir @ ''/'') p)"

definition mkdirSync :: "string \<Rightarrow> world \<Rightarrow> world" where
  "mkdirSync p w = w\<lparr>files := insert p (files w)\<rparr>"

text \<open>\<open>fs.mkdirSync(p, { recursive: true })\<close> for a directory right under \<open>temp\<close>.\<close>

definition mkdirSync_recursive :: "string \<Rightarrow> world \<Rightarrow> world" where
  "mkdirSync_recursive p w = w\<lparr>files := insert p (insert ''temp'' (files w))\<rparr>"

text \<open>\<open>fs.rmSync(dir, { recursive: true, force: true })\<close>.\<close>

definition rmSync :: "string \<Rightarrow> world \<Rightarrow> world" where
  "rmSync dir w = w\<lparr>files := Set.filter (\<lambda>p. \<not> inside dir p) (files w)\<rparr>"

definition unlinkSync :: "string \<Rightarrow> world \<Rightarrow> world" where
  "unlinkSync p w = w\<lparr>files := files w - {p}\<rparr>"

definition writeFileSync :: "string \<Rightarrow> string \<Rightarrow> world \<Rightarrow> world" where
  "writeFileSync p content w = emit (WriteFile p content) (w\<lparr>files := insert p (files w)\<rparr>)"

text \<open>A file the media tool wrote.\<close>

definition produced :: "string \<Rightarrow> world \<Rightarrow> world" where
  "produced p w = w\<lparr>files := insert p (files w)\<rparr>"

text \<open>
  \<open>supabase.from('lessons').update({...}).eq('lesson_id', lessonId)\<close>. The client resolves
  with \<open>{ data, error }\<close> and does not throw; no pipeline reads the result. The store is
  taken to apply the write.
\<close>

definition db_update :: "kind \<Rightarrow> string \<Rightarrow> status \<Rightarrow> string list \<Rightarrow> world \<Rightarrow> world" where
  "db_update k lessonId st urls w =
     emit (DbUpdate k lessonId st urls) (w\<lparr>lessons := (lessons w)((k, lessonId) \<mapsto> st)\<rparr>)"

text \<open>
  \<open>supabase.storage.from('seeker').upload(path, buffer, options)\<close>. The storage client
  reports a failed upload in the value it resolves with (\<open>{ data: null, error }\<close>):
  \<open>Refused\<close>. \<open>Failure\<close> is a call that rejects. No pipeline binds the value the call
  resolves with, so \<open>Stored\<close> and \<open>Refused\<close> continue alike.
\<close>

datatype upload_result = Stored | Refused | Failure

definition storage_upload :: "upload_result \<Rightarrow> string \<Rightarrow> world \<Rightarrow> unit outcome" where
  "storage_upload r p w =
     (case r of
        Stored \<Rightarrow> Done () (emit (Upload p) (w\<lparr>bucket := insert p (bucket w)\<rparr>))
      | Refused \<Rightarrow> Done () (emit (Upload p) w)
      | Failure \<Rightarrow> Thrown StorageError (emit (Upload p) w))"

definition getPublicUrl :: "string \<Rightarrow> string" where
  "getPublicUrl storagePath = ''storage/v1/object/public/seeker/'' @ storagePath"

text \<open>\<open>fs.readFileSync(p)\<close> throws when the file is not there.\<close>

definition readFileSync :: "string \<Rightarrow> world \<Rightarrow> unit outcome" where
  "readFileSync p w = (if existsSync p w then Done () w else Thrown FsError w)"

section \<open>The slideshow pipeline: \<open>SlidesService.createVideo\<close>\<close>

text \<open>
  What the outside answers during one run. A generative call is given by the part the code
  reads from its response (\<open>candidates?.[0]?.content?.parts?.[0]?.text\<close>, or the
  \<open>inlineData.data\<close> of a part), \<open>None\<close> when the chain of optional accesses ends in
  \<open>undefined\<close>. A run of the media tool is given by whether it ends without an error.
\<close>

record slides_env =
  s_parse :: "string \<Rightarrow> json option"
  s_client :: bool
  s_script :: "string option call"
  s_image :: "nat \<Rightarrow> string option call"
  s_audio :: "nat \<Rightarrow> string option call"
  s_convert :: "nat \<Rightarrow> bool"
  s_render :: "nat \<Rightarrow> bool"
  s_stitch :: bool
  s_upload :: upload_result
  s_now :: nat

definition font_paths :: "string list" where
  "font_paths =
     [''/usr/share/fonts/truetype/liberation/LiberationSans-Bold.ttf'',
      ''/usr/share/fonts/truetype/dejavu/DejaVuSans-Bold.ttf'',
      ''/System/Library/Fonts/Supplemental/Arial Bold.ttf'']"

definition getSystemFont :: "world \<Rightarrow> string" where
  "getSystemFont w =
     (case List.find (\<lambda>p. existsSync p w) font_paths of Some p \<Rightarrow> p | None \<Rightarrow> ''Arial'')"

definition image_model :: string where
  "image_model = ''gemini-3-pro-image-preview''"

definition text_model :: string where
  "text_model = ''gemini-3-pro-preview''"

definition tts_model :: string where
  "tts_model = ''gemini-2.5-flash-preview-tts''"

text \<open>
  Step 1 of the loop body: the image and the narration of slide \<open>i\<close> are generated one
  after the other, then both payloads are checked and written to the scratch directory.
\<close>

definition slide_assets :: "slides_env \<Rightarrow> string \<Rightarrow> nat \<Rightarrow> json \<Rightarrow> world \<Rightarrow> unit outcome" where
  "slide_assets env tempDir i slide w =
     (case js_get slide ''image_prompt'' of
        Inl e \<Rightarrow> Thrown e w
      | Inr prompt \<Rightarrow>
         (case s_image env i of
            Rejects \<Rightarrow> Thrown ServiceError (emit (GenerateContent image_model) w)
          | Resolves imgB64 \<Rightarrow>
             (case s_audio env i of
                Rejects \<Rightarrow>
                  Thrown ServiceError
                    (emit (GenerateContent tts_model) (emit (GenerateContent image_model) w))
              | Resolves audioB64 \<Rightarrow>
                 (let w2 = emit (GenerateContent tts_model) (emit (GenerateContent image_model) w)
                  in if falsy imgB64 \<or> falsy audioB64 then Thrown MissingAsset w2
                     else Done ()
                       (writeFileSync (path_join tempDir (''a'' @ show_nat i @ ''.pcm''))
                          (or_else audioB64 [])
                          (writeFileSync (path_join tempDir (''i'' @ show_nat i @ ''.png''))
                             (or_else imgB64 []) w2))))))"

text \<open>The raw PCM is wrapped into a WAV file; a stale output file is removed first.\<close>

definition convert_audio :: "slides_env \<Rightarrow> string \<Rightarrow> nat \<Rightarrow> world \<Rightarrow> unit outcome" where
  "convert_audio env tempDir i w =
     (let audioPathPCM = path_join tempDir (''a'' @ show_nat i @ ''.pcm'');
          audioPath = path_join tempDir (''a'' @ show_nat i @ ''.wav'');
          w1 = (if existsSync audioPath w then unlinkSync audioPath w else w);
          w2 = emit (Ffmpeg [audioPathPCM] [''-f s16le'', ''-ar 24000'', ''-ac 1''] None
                      [''audioCodec pcm_s16le'', ''audioChannels 1'', ''audioFrequency 24000'',
                       ''format wav''] audioPath) w1
      in if s_convert env i then Done () (produced audioPath w2) else Thrown ToolError w2)"

text \<open>
  \<open>slide.title.replace(...)\<close> and \<open>slide.bullets.map(b => b.replace(...))\<close> throw unless
  the title is a string and the bullets are an array of strings.
\<close>

definition slide_texts :: "json \<Rightarrow> error + string \<times> string list" where
  "slide_texts slide =
     (case js_get slide ''title'' of
        Inr (Some (JStr title)) \<Rightarrow>
          (case js_get slide ''bullets'' of
             Inr (Some (JArr bs)) \<Rightarrow>
               (case those (map js_string bs) of
                  Some bullets \<Rightarrow> Inr (title, bullets)
                | None \<Rightarrow> Inl TypeError)
           | _ \<Rightarrow> Inl TypeError)
      | _ \<Rightarrow> Inl TypeError)"

definition render_options :: "string list" where
  "render_options =
     [''-map [outv]'', ''-map 1:a'', ''-t 30'', ''-pix_fmt yuv420p'', ''-c:v libx264'',
      ''-c:a aac'', ''-b:a 128k'', ''-preset ultrafast'', ''-shortest'']"

definition render_slide :: "slides_env \<Rightarrow> string \<Rightarrow> nat \<Rightarrow> json \<Rightarrow> world \<Rightarrow> string outcome" where
  "render_slide env tempDir i slide w =
     (let slidePath = path_join tempDir (''s'' @ show_nat i @ ''.mp4'');
          rawFontPath = getSystemFont w
      in case slide_texts slide of
           Inl e \<Rightarrow> Thrown e w
         | Inr (title, bullets) \<Rightarrow>
            (let w1 = emit (Ffmpeg [path_join tempDir (''i'' @ show_nat i @ ''.png''),
                                   path_join tempDir (''a'' @ show_nat i @ ''.wav'')]
                              [''-loop 1''] (Some (filterComplex rawFontPath title bullets))
                              render_options slidePath) w
             in if s_render env i then Done slidePath (produced slidePath w1)
                else Thrown ToolError w1))"

definition process_slide :: "slides_env \<Rightarrow> string \<Rightarrow> nat \<Rightarrow> json \<Rightarrow> world \<Rightarrow> string outcome" where
  "process_slide env tempDir i slide w =
     (case slide_assets env tempDir i slide w of
        Thrown e w1 \<Rightarrow> Thrown e w1
      | Done u w1 \<Rightarrow>
         (case convert_audio env tempDir i w1 of
            Thrown e w2 \<Rightarrow> Thrown e w2
          | Done u w2 \<Rightarrow> render_slide env tempDir i slide w2))"

text \<open>\<open>for (let i = 0; i < manifest.length; i++)\<close>, on the slides still to do.\<close>

fun slides_loop ::
  "slides_env \<Rightarrow> string \<Rightarrow> nat \<Rightarrow> json list \<Rightarrow> string list \<Rightarrow> world \<Rightarrow> string list outcome" where
  "slides_loop env tempDir i [] slideFiles w = Done slideFiles w"
| "slides_loop env tempDir i (slide # rest) slideFiles w =
     (case process_slide env tempDir i slide w of
        Thrown e w1 \<Rightarrow> Thrown e w1
      | Done slidePath w1 \<Rightarrow> slides_loop env tempDir (Suc i) rest (slideFiles @ [slidePath]) w1)"

text \<open>
  The first three statements of the \<open>try\<close> block: the \<open>temp\<close> root is made if it is
  missing, a directory left at \<open>tempDir\<close> is removed with all it holds, and the directory
  is made anew.
\<close>

definition createVideo_scratch :: "string \<Rightarrow> world \<Rightarrow> world" where
  "createVideo_scratch tempDir w =
     (let w1 = (if \<not> existsSync ''temp'' w then mkdirSync ''temp'' w else w);
          w2 = (if existsSync tempDir w1 then rmSync tempDir w1 else w1)
      in mkdirSync_recursive tempDir w2)"

text \<open>
  The body of the \<open>try\<close> block. It ends when \<open>mergeToFile\<close> has been called: the stitcher
  runs on after that, and the block's value here is the manifest its handlers close over.
\<close>

definition createVideo_try :: "slides_env \<Rightarrow> string \<Rightarrow> world \<Rightarrow> json outcome" where
  "createVideo_try env lessonId w =
     (let tempDir = resolve_temp lessonId;
          w3 = createVideo_scratch tempDir w;
          w4 = db_update SlideshowVideo lessonId Processing [] w3
      in if \<not> s_client env then Thrown ServiceError w4
         else case s_script env of
           Rejects \<Rightarrow> Thrown ServiceError (emit (GenerateContent text_model) w4)
         | Resolves text \<Rightarrow>
            (let w5 = emit (GenerateContent text_model) w4
             in case s_parse env (or_else (map_option strip_fences text) ''[]'') of
                  None \<Rightarrow> Thrown SyntaxError w5
                | Some manifest \<Rightarrow>
                   (case js_items manifest of
                      Inl e \<Rightarrow> Thrown e w5
                    | Inr slides \<Rightarrow>
                       (case slides_loop env tempDir 0 slides [] w5 of
                          Thrown e w6 \<Rightarrow> Thrown e w6
                        | Done slideFiles w6 \<Rightarrow>
                            Done manifest
                              (emit (FfmpegMerge slideFiles (path_join tempDir ''final.mp4'')) w6)))))"

text \<open>The \<open>catch\<close> block. The removal of the scratch directory is commented out in the source.\<close>

definition createVideo_catch :: "string \<Rightarrow> world \<Rightarrow> world" where
  "createVideo_catch lessonId w =
     (let w1 = db_update SlideshowVideo lessonId Failed [] w
      in w1\<lparr>processingQueue := processingQueue w1 - {lessonId}\<rparr>)"

text \<open>
  \<open>createVideo\<close> up to the moment its promise settles: the world then, and the manifest of
  the stitcher it left running, if it started one.
\<close>

definition createVideo :: "slides_env \<Rightarrow> string \<Rightarrow> world \<Rightarrow> world \<times> json option" where
  "createVideo env lessonId w =
     (if lessonId \<in> processingQueue w then (w, None)
      else case createVideo_try env lessonId
                  (w\<lparr>processingQueue := insert lessonId (processingQueue w)\<rparr>) of
             Done manifest w1 \<Rightarrow> (w1, Some manifest)
           | Thrown e w1 \<Rightarrow> (createVideo_catch lessonId w1, None))"

text \<open>The stitcher's \<open>'end'\<close> handler, an \<open>async\<close> function nobody awaits.\<close>

definition stitcher_on_end :: "slides_env \<Rightarrow> string \<Rightarrow> json \<Rightarrow> world \<Rightarrow> unit outcome" where
  "stitcher_on_end env lessonId manifest w =
     (let tempDir = resolve_temp lessonId;
          storagePath = lessonId @ ''/slides_'' @ show_nat (s_now env) @ ''.mp4''
      in case readFileSync (path_join tempDir ''final.mp4'') w of
           Thrown e w1 \<Rightarrow> Thrown e w1
         | Done u w1 \<Rightarrow>
            (case storage_upload (s_upload env) storagePath w1 of
               Thrown e w2 \<Rightarrow> Thrown e w2
             | Done u w2 \<Rightarrow>
                (let w3 = db_update SlideshowVideo lessonId Ready [getPublicUrl storagePath] w2;
                     w4 = rmSync tempDir w3
                 in Done () (w4\<lparr>processingQueue := processingQueue w4 - {lessonId}\<rparr>))))"

text \<open>
  The stitcher's \<open>'error'\<close> handler: \<open>throw err\<close>. It runs from the emitter, after the
  \<open>try\<close> block has been left, so nothing catches the exception.
\<close>

definition stitcher_on_error :: "world \<Rightarrow> unit outcome" where
  "stitcher_on_error w = Thrown ToolError w"

text \<open>
  A whole run: the call, then the one event the stitcher emits. An exception that leaves
  a handler is caught by nobody; the world stays as the handler left it.
\<close>

definition createVideo_run :: "slides_env \<Rightarrow> string \<Rightarrow> world \<Rightarrow> world" where
  "createVideo_run env lessonId w =
     (case createVideo env lessonId w of
        (w1, None) \<Rightarrow> w1
      | (w1, Some manifest) \<Rightarrow>
         (case (if s_stitch env
                then stitcher_on_end env lessonId manifest
                       (produced (path_join (resolve_temp lessonId) ''final.mp4'') w1)
                else stitcher_on_error w1) of
            Done u w2 \<Rightarrow> w2
          | Thrown e w2 \<Rightarrow> w2))"

section \<open>The scratch directory of the other three pipelines\<close>

text \<open>
  \<open>if (!fs.existsSync(tempDir)) fs.mkdirSync(tempDir, { recursive: true })\<close>, the first
  statement of the \<open>try\<close> block of \<open>createPodcast\<close>, \<open>createComic\<close> and
  \<open>produceCinematicExplainer\<close>.
\<close>

definition scratch_if_absent :: "string \<Rightarrow> world \<Rightarrow> world" where
  "scratch_if_absent tempDir w =
     (if \<not> existsSync tempDir w then mkdirSync_recursive tempDir w else w)"

section \<open>The dialogue-audio pipeline: \<open>SlidesService.createPodcast\<close>\<close>

record podcast_env =
  p_client :: bool
  p_script :: "string option call"
  p_audio :: "string option call"
  p_convert :: bool
  p_upload :: upload_result
  p_now :: nat

definition createPodcast_try :: "podcast_env \<Rightarrow> string \<Rightarrow> world \<Rightarrow> unit outcome" where
  "createPodcast_try env lessonId w =
     (let tempDir = resolve_temp (''pod_'' @ lessonId);
          pcmPath = path_join tempDir ''pod.pcm'';
          wavPath = path_join tempDir ''pod.wav'';
          storagePath = lessonId @ ''/podcast_'' @ show_nat (p_now env) @ ''.mp3'';
          w1 = scratch_if_absent tempDir w;
          w2 = db_update DialogueAudio lessonId Processing [] w1
      in if \<not> p_client env then Thrown ServiceError w2
         else case p_script env of
           Rejects \<Rightarrow> Thrown ServiceError (emit (GenerateContent ''gemini-2.0-flash'') w2)
         | Resolves transcript \<Rightarrow>
            (let w3 = emit (GenerateContent ''gemini-2.0-flash'') w2
             in case p_audio env of
                  Rejects \<Rightarrow> Thrown ServiceError (emit (GenerateContent tts_model) w3)
                | Resolves audioB64 \<Rightarrow>
                   (let w4 = emit (GenerateContent tts_model) w3
                    in if falsy audioB64 then Thrown MissingAsset w4
                       else (let w5 = writeFileSync pcmPath (or_else audioB64 []) w4;
                                 w6 = emit (Ffmpeg [pcmPath] [''-f s16le'', ''-ar 24000'', ''-ac 1'']
                                             None [''toFormat mp3''] wavPath) w5
                             in if \<not> p_convert env then Thrown ToolError w6
                                else case readFileSync wavPath (produced wavPath w6) of
                                  Thrown e w7 \<Rightarrow> Thrown e w7
                                | Done u w7 \<Rightarrow>
                                   (case storage_upload (p_upload env) storagePath w7 of
                                      Thrown e w8 \<Rightarrow> Thrown e w8
                                    | Done u w8 \<Rightarrow>
                                        Done ()
                                          (rmSync tempDir
                                             (db_update DialogueAudio lessonId Ready
                                                [getPublicUrl storagePath] w8)))))))"

text \<open>The \<open>catch\<close> block writes the status and nothing else.\<close>

definition createPodcast_catch :: "string \<Rightarrow> world \<Rightarrow> world" where
  "createPodcast_catch lessonId w = db_update DialogueAudio lessonId Failed [] w"

definition createPodcast :: "podcast_env \<Rightarrow> string \<Rightarrow> world \<Rightarrow> world" where
  "createPodcast env lessonId w =
     (case createPodcast_try env lessonId w of
        Done u w1 \<Rightarrow> w1
      | Thrown e w1 \<Rightarrow> createPodcast_catch lessonId w1)"

section \<open>The illustrated-story pipeline: \<open>SlidesService.createComic\<close>\<close>

record comic_env =
  c_parse :: "string \<Rightarrow> json option"
  c_client :: bool
  c_board :: "string option call"
  c_page :: "nat \<Rightarrow> string option call"
  c_upload :: "nat \<Rightarrow> upload_result"
  c_now :: "nat \<Rightarrow> nat"

text \<open>One turn of \<open>for (const pageData of manifest.pages)\<close>; \<open>n\<close> counts the turns.\<close>

definition render_page :: "comic_env \<Rightarrow> string \<Rightarrow> nat \<Rightarrow> json \<Rightarrow> world \<Rightarrow> string outcome" where
  "render_page env lessonId n pageData w =
     (case js_get pageData ''page'' of
        Inl e \<Rightarrow> Thrown e w
      | Inr page \<Rightarrow>
         (case c_page env n of
            Rejects \<Rightarrow> Thrown ServiceError (emit (GenerateContent image_model) w)
          | Resolves imgB64 \<Rightarrow>
             (let w1 = emit (GenerateContent image_model) w;
                  storagePath = ''comics/'' @ lessonId @ ''/p'' @ template page @ ''_''
                                  @ show_nat (c_now env n) @ ''.jpg''
              in if falsy imgB64 then Thrown MissingAsset w1
                 else case storage_upload (c_upload env n) storagePath w1 of
                        Thrown e w2 \<Rightarrow> Thrown e w2
                      | Done u w2 \<Rightarrow> Done (getPublicUrl storagePath) w2)))"

fun pages_loop ::
  "comic_env \<Rightarrow> string \<Rightarrow> nat \<Rightarrow> json list \<Rightarrow> string list \<Rightarrow> world \<Rightarrow> string list outcome" where
  "pages_loop env lessonId n [] pageUrls w = Done pageUrls w"
| "pages_loop env lessonId n (pageData # rest) pageUrls w =
     (case render_page env lessonId n pageData w of
        Thrown e w1 \<Rightarrow> Thrown e w1
      | Done publicUrl w1 \<Rightarrow> pages_loop env lessonId (Suc n) rest (pageUrls @ [publicUrl]) w1)"

definition createComic_try :: "comic_env \<Rightarrow> string \<Rightarrow> world \<Rightarrow> unit outcome" where
  "createComic_try env lessonId w =
     (let tempDir = resolve_temp (''comic_'' @ lessonId);
          w1 = scratch_if_absent tempDir w;
          w2 = db_update IllustratedStory lessonId Processing [] w1
      in if \<not> c_client env then Thrown ServiceError w2
         else case c_board env of
           Rejects \<Rightarrow> Thrown ServiceError (emit (GenerateContent text_model) w2)
         | Resolves text \<Rightarrow>
            (let w3 = emit (GenerateContent text_model) w2
             in case c_parse env (or_else (map_option (trim \<circ> strip_fences) text) ''{}'') of
                  None \<Rightarrow> Thrown SyntaxError w3
                | Some manifest \<Rightarrow>
                   (case js_get manifest ''pages'' of
                      Inl e \<Rightarrow> Thrown e w3
                    | Inr pages \<Rightarrow>
                       (case js_iterate pages of
                          Inl e \<Rightarrow> Thrown e w3
                        | Inr ps \<Rightarrow>
                           (case pages_loop env lessonId 0 ps [] w3 of
                              Thrown e w4 \<Rightarrow> Thrown e w4
                            | Done pageUrls w4 \<Rightarrow>
                               (let w5 = db_update IllustratedStory lessonId Ready pageUrls w4
                                in Done ()
                                     (if existsSync tempDir w5 then rmSync tempDir w5
                                      else w5)))))))"

definition createComic_catch :: "string \<Rightarrow> world \<Rightarrow> world" where
  "createComic_catch lessonId w =
     (let tempDir = resolve_temp (''comic_'' @ lessonId);
          w1 = db_update IllustratedStory lessonId Failed [] w
      in if existsSync tempDir w1 then rmSync tempDir w1 else w1)"

definition createComic :: "comic_env \<Rightarrow> string \<Rightarrow> world \<Rightarrow> world" where
  "createComic env lessonId w =
     (case createComic_try env lessonId w of
        Done u w1 \<Rightarrow> w1
      | Thrown e w1 \<Rightarrow> createComic_catch lessonId w1)"

section \<open>The cinematic pipeline: \<open>VideoService.produceCinematicExplainer\<close>\<close>

text \<open>
  A long-running operation as the code reads it: \<open>operation.done\<close>, and
  \<open>operation.response?.generatedVideos?.[0]\<close> with its \<open>video\<close> (\<open>None\<close>: no generated
  video; \<open>Some None\<close>: one without a file; \<open>Some (Some f)\<close>: the file \<open>f\<close>).
\<close>

datatype operation = Operation (op_done: bool) (op_video: "string option option")

text \<open>
  \<open>v_submit i\<close> is what \<open>generateVideos\<close> resolves with for scene \<open>i\<close>, and \<open>v_fetch i k\<close>
  what the \<open>k\<close>-th \<open>getVideosOperation\<close> for that scene resolves with.
\<close>

record veo_env =
  v_parse :: "string \<Rightarrow> json option"
  v_client :: bool
  v_identity :: "string option call"
  v_grid :: "string option call"
  v_script :: "string option call"
  v_thumb :: "nat \<Rightarrow> string option call"
  v_submit :: "nat \<Rightarrow> operation call"
  v_fetch :: "nat \<Rightarrow> nat \<Rightarrow> operation call"
  v_download :: "nat \<Rightarrow> bool"
  v_concat :: bool
  v_upload :: upload_result
  v_now :: nat

definition veo_model :: string where
  "veo_model = ''veo-3.1-generate-preview''"

text \<open>
  \<open>while (!operation.done) { await sleep(10000); operation = await getVideosOperation(...) }\<close>.
  The loop has no bound, so the model is a partial function: \<open>None\<close> is a loop that never
  ends.
\<close>

partial_function (option) poll ::
  "(nat \<Rightarrow> operation call) \<Rightarrow> nat \<Rightarrow> operation \<Rightarrow> world \<Rightarrow> operation outcome option" where
  "poll fetch k operation w =
     (if op_done operation then Some (Done operation w)
      else case fetch k of
             Rejects \<Rightarrow> Some (Thrown ServiceError (emit GetVideosOperation (emit (Sleep 10000) w)))
           | Resolves operation' \<Rightarrow>
               poll fetch (Suc k) operation' (emit GetVideosOperation (emit (Sleep 10000) w)))"

text \<open>What follows the polling loop: the two checks on the response and the download.\<close>

definition sceneClipPath :: "string \<Rightarrow> nat \<Rightarrow> string" where
  "sceneClipPath tempDir i = path_join tempDir (''scene_'' @ show_nat (i + 1) @ ''.mp4'')"

definition fetch_clip :: "veo_env \<Rightarrow> string \<Rightarrow> nat \<Rightarrow> operation \<Rightarrow> world \<Rightarrow> string outcome" where
  "fetch_clip env tempDir i operation w =
     (case op_video operation of
        None \<Rightarrow> Thrown MissingAsset w
      | Some None \<Rightarrow> Thrown MissingAsset w
      | Some (Some video) \<Rightarrow>
         (let w1 = emit (Download video (sceneClipPath tempDir i)) w
          in if v_download env i then Done (sceneClipPath tempDir i) (produced (sceneClipPath tempDir i) w1)
             else Thrown ServiceError w1))"

text \<open>One turn of the scene loop: thumbnail, submission, polling, download.\<close>

definition produce_scene ::
  "veo_env \<Rightarrow> string \<Rightarrow> nat \<Rightarrow> json \<Rightarrow> world \<Rightarrow> string outcome option" where
  "produce_scene env tempDir i scene w =
     (case js_get scene ''action_prompt'' of
        Inl e \<Rightarrow> Some (Thrown e w)
      | Inr prompt \<Rightarrow>
         (case v_thumb env i of
            Rejects \<Rightarrow> Some (Thrown ServiceError (emit (GenerateContent image_model) w))
          | Resolves thumbB64 \<Rightarrow>
             (let w1 = emit (GenerateContent image_model) w
              in if falsy thumbB64 then Some (Thrown MissingAsset w1)
                 else case v_submit env i of
                        Rejects \<Rightarrow> Some (Thrown ServiceError (emit (GenerateVideos veo_model) w1))
                      | Resolves operation \<Rightarrow>
                         (case poll (v_fetch env i) 0 operation
                                 (emit (GenerateVideos veo_model) w1) of
                            None \<Rightarrow> None
                          | Some (Thrown e w2) \<Rightarrow> Some (Thrown e w2)
                          | Some (Done operation' w2) \<Rightarrow>
                              Some (fetch_clip env tempDir i operation' w2)))))"

fun scene_loop ::
  "veo_env \<Rightarrow> string \<Rightarrow> nat \<Rightarrow> json list \<Rightarrow> string list \<Rightarrow> world \<Rightarrow> string list outcome option" where
  "scene_loop env tempDir i [] videoClips w = Some (Done videoClips w)"
| "scene_loop env tempDir i (scene # rest) videoClips w =
     (case produce_scene env tempDir i scene w of
        None \<Rightarrow> None
      | Some (Thrown e w1) \<Rightarrow> Some (Thrown e w1)
      | Some (Done clipPath w1) \<Rightarrow>
          scene_loop env tempDir (Suc i) rest (videoClips @ [clipPath]) w1)"

text \<open>
  A structured stage of this pipeline: the reply's text, fences stripped and trimmed,
  must be non-empty and must parse.
\<close>

definition structured_reply ::
  "(string \<Rightarrow> json option) \<Rightarrow> string option call \<Rightarrow> world \<Rightarrow> json outcome" where
  "structured_reply parse reply w =
     (case reply of
        Rejects \<Rightarrow> Thrown ServiceError (emit (GenerateContent text_model) w)
      | Resolves text \<Rightarrow>
         (let w1 = emit (GenerateContent text_model) w;
              stripped = map_option (trim \<circ> strip_fences) text
          in if falsy stripped then Thrown EmptyReply w1
             else case parse (or_else stripped []) of
                    None \<Rightarrow> Thrown SyntaxError w1
                  | Some v \<Rightarrow> Done v w1))"

text \<open>Stage 2, the character reference grid; its prompt reads the visual identity.\<close>

definition character_grid :: "veo_env \<Rightarrow> json \<Rightarrow> world \<Rightarrow> unit outcome" where
  "character_grid env visualId w =
     (case js_get visualId ''protagonist_description'' of
        Inl e \<Rightarrow> Thrown e w
      | Inr d \<Rightarrow>
         (case v_grid env of
            Rejects \<Rightarrow> Thrown ServiceError (emit (GenerateContent image_model) w)
          | Resolves charGridB64 \<Rightarrow>
              (if falsy charGridB64 then Thrown MissingAsset (emit (GenerateContent image_model) w)
               else Done () (emit (GenerateContent image_model) w))))"

definition quote :: string where
  "quote = [CHR 0x27]"

definition fileListContent :: "string list \<Rightarrow> string" where
  "fileListContent videoClips =
     join_lines (map (\<lambda>clipPath. ''file '' @ quote @ basename clipPath @ quote) videoClips)"

text \<open>Stages 5 and 6: the concat list, the stream copy, the upload and the final update.\<close>

definition stitch_and_publish ::
  "veo_env \<Rightarrow> string \<Rightarrow> string list \<Rightarrow> world \<Rightarrow> unit outcome" where
  "stitch_and_publish env lessonId videoClips w =
     (let tempDir = resolve_temp (''veo_'' @ lessonId);
          listFilePath = path_join tempDir ''clips.txt'';
          finalOutputPath = path_join tempDir ''final_cinematic.mp4'';
          storagePath = lessonId @ ''/cinematic_'' @ show_nat (v_now env) @ ''.mp4'';
          w1 = writeFileSync listFilePath (fileListContent videoClips) w;
          w2 = emit (Ffmpeg [listFilePath] [''-f concat'', ''-safe 0''] None [''-c copy'']
                      finalOutputPath) w1
      in if \<not> v_concat env then Thrown ToolError w2
         else case readFileSync finalOutputPath (produced finalOutputPath w2) of
                Thrown e w3 \<Rightarrow> Thrown e w3
              | Done u w3 \<Rightarrow>
                 (case storage_upload (v_upload env) storagePath w3 of
                    Thrown e w4 \<Rightarrow> Thrown e w4
                  | Done u w4 \<Rightarrow>
                     (let w5 = db_update CinematicVideo lessonId Ready
                                 [getPublicUrl storagePath] w4
                      in Done () (if existsSync tempDir w5 then rmSync tempDir w5 else w5))))"

text \<open>
  The body of the \<open>try\<close> block. The student's interests (stage 0) only feed the prompts.
\<close>

definition produceCinematicExplainer_try ::
  "veo_env \<Rightarrow> string \<Rightarrow> string \<Rightarrow> world \<Rightarrow> unit outcome option" where
  "produceCinematicExplainer_try env lessonId studentId w =
     (let tempDir = resolve_temp (''veo_'' @ lessonId);
          w1 = scratch_if_absent tempDir w;
          w2 = db_update CinematicVideo lessonId Processing [] (emit (DbSelectStudent studentId) w1)
      in if \<not> v_client env then Some (Thrown ServiceError w2)
         else case structured_reply (v_parse env) (v_identity env) w2 of
           Thrown e w3 \<Rightarrow> Some (Thrown e w3)
         | Done visualId w3 \<Rightarrow>
            (case character_grid env visualId w3 of
               Thrown e w4 \<Rightarrow> Some (Thrown e w4)
             | Done u w4 \<Rightarrow>
                (case structured_reply (v_parse env) (v_script env) w4 of
                   Thrown e w5 \<Rightarrow> Some (Thrown e w5)
                 | Done script w5 \<Rightarrow>
                    (case js_items script of
                       Inl e \<Rightarrow> Some (Thrown e w5)
                     | Inr scenes \<Rightarrow>
                        (case scene_loop env tempDir 0 scenes [] w5 of
                           None \<Rightarrow> None
                         | Some (Thrown e w6) \<Rightarrow> Some (Thrown e w6)
                         | Some (Done videoClips w6) \<Rightarrow>
                             Some (stitch_and_publish env lessonId videoClips w6))))))"

text \<open>The \<open>catch\<close> block, before it rethrows.\<close>

definition produceCinematicExplainer_catch :: "string \<Rightarrow> world \<Rightarrow> world" where
  "produceCinematicExplainer_catch lessonId w =
     (let tempDir = resolve_temp (''veo_'' @ lessonId);
          w1 = db_update CinematicVideo lessonId Failed [] w
      in if existsSync tempDir w1 then rmSync tempDir w1 else w1)"

text \<open>
  The call: \<open>None\<close> when it never settles, \<open>Done\<close> when the promise resolves, \<open>Thrown\<close>
  when it rejects with the error the \<open>catch\<close> block rethrows.
\<close>

definition produceCinematicExplainer ::
  "veo_env \<Rightarrow> string \<Rightarrow> string \<Rightarrow> world \<Rightarrow> unit outcome option" where
  "produceCinematicExplainer env lessonId studentId w =
     (case produceCinematicExplainer_try env lessonId studentId w of
        None \<Rightarrow> None
      | Some (Done u w1) \<Rightarrow> Some (Done () w1)
      | Some (Thrown e w1) \<Rightarrow> Some (Thrown e (produceCinematicExplainer_catch lessonId w1)))"

section \<open>Sample worlds and environments\<close>

text \<open>The inputs at which the properties below are evaluated.\<close>

definition w0 :: world where
  "w0 = \<lparr>processingQueue = {}, lessons = Map.empty, files = {}, bucket = {}, trace = []\<rparr>"

definition dq :: string where
  "dq = [CHR 0x22]"

definition jq :: "string \<Rightarrow> string" where
  "jq s = dq @ s @ dq"

definition sample_manifest_text :: string where
  "sample_manifest_text =
     ''[{'' @ jq ''title'' @ '':'' @ jq ''Cells: the [basics]'' @ '','' @ jq ''bullets'' @ '':[''
       @ jq ''It's alive'' @ '','' @ jq ''a:b'' @ ''],'' @ jq ''image_prompt'' @ '':'' @ jq ''a cell''
       @ '','' @ jq ''narration'' @ '':'' @ jq ''Cells are small.'' @ ''}]''"

definition sample_manifest :: json where
  "sample_manifest =
     JArr [JObj [(''title'', JStr ''Cells: the [basics]''),
                 (''bullets'', JArr [JStr ''It's alive'', JStr ''a:b'']),
                 (''image_prompt'', JStr ''a cell''),
                 (''narration'', JStr ''Cells are small.'')]]"

definition sample_identity_text :: string where
  "sample_identity_text =
     ''{'' @ jq ''protagonist_description'' @ '':'' @ jq ''a girl'' @ '','' @ jq ''location_description''
       @ '':'' @ jq ''a lab'' @ '','' @ jq ''art_style'' @ '':'' @ jq ''Pixar'' @ ''}''"

definition sample_identity :: json where
  "sample_identity =
     JObj [(''protagonist_description'', JStr ''a girl''),
           (''location_description'', JStr ''a lab''), (''art_style'', JStr ''Pixar'')]"

definition sample_scene_text :: "string \<Rightarrow> string" where
  "sample_scene_text n =
     ''{'' @ jq ''scene'' @ '':'' @ n @ '','' @ jq ''action_prompt'' @ '':'' @ jq ''She looks.'' @ '',''
       @ jq ''dialogue_sfx'' @ '':'' @ jq ''A hum.'' @ ''}''"

definition sample_scene :: "int \<Rightarrow> json" where
  "sample_scene n =
     JObj [(''scene'', JNum n), (''action_prompt'', JStr ''She looks.''),
           (''dialogue_sfx'', JStr ''A hum.'')]"

definition sample_script_text :: string where
  "sample_script_text =
     ''['' @ sample_scene_text ''1'' @ '','' @ sample_scene_text ''2'' @ '',''
       @ sample_scene_text ''3'' @ '','' @ sample_scene_text ''4'' @ '']''"

definition sample_script :: json where
  "sample_script = JArr [sample_scene 1, sample_scene 2, sample_scene 3, sample_scene 4]"

definition sample_board_text :: string where
  "sample_board_text =
     ''{'' @ jq ''thematic_era'' @ '':'' @ jq ''modern'' @ '','' @ jq ''style_guide'' @ '':'' @ jq ''ink''
       @ '','' @ jq ''visual_anchors'' @ '':'' @ jq ''a girl'' @ '','' @ jq ''pages'' @ '':[{''
       @ jq ''page'' @ '':1,'' @ jq ''panel_desc'' @ '':'' @ jq ''title page'' @ '',''
       @ jq ''caption'' @ '':'' @ jq ''Cells'' @ ''}]}''"

definition sample_board :: json where
  "sample_board =
     JObj [(''thematic_era'', JStr ''modern''), (''style_guide'', JStr ''ink''),
           (''visual_anchors'', JStr ''a girl''),
           (''pages'', JArr [JObj [(''page'', JNum 1), (''panel_desc'', JStr ''title page''),
                                   (''caption'', JStr ''Cells'')]])]"

text \<open>
  \<open>JSON.parse\<close> on the texts the sample runs hand to it. Every other text stands here for
  one that does not parse; \<open>not json\<close> and the empty text are such texts.
\<close>

definition sample_parse :: "string \<Rightarrow> json option" where
  "sample_parse s =
     (if s = ''[]'' then Some (JArr [])
      else if s = ''{}'' then Some (JObj [])
      else if s = sample_manifest_text then Some sample_manifest
      else if s = sample_identity_text then Some sample_identity
      else if s = sample_script_text then Some sample_script
      else if s = sample_board_text then Some sample_board
      else None)"

definition fenced :: "string \<Rightarrow> string" where
  "fenced s = fence @ ''json'' @ s @ fence"

text \<open>A slideshow run in which every stage succeeds, for a manifest of one slide.\<close>

definition slides_ok :: slides_env where
  "slides_ok =
     \<lparr>s_parse = sample_parse, s_client = True,
      s_script = Resolves (Some (fenced sample_manifest_text)),
      s_image = (\<lambda>i. Resolves (Some ''iVBORw0KGgo='')),
      s_audio = (\<lambda>i. Resolves (Some ''UklGRg=='')),
      s_convert = (\<lambda>i. True), s_render = (\<lambda>i. True), s_stitch = True,
      s_upload = Stored, s_now = 1770000000000\<rparr>"

text \<open>The same run, except that the media tool fails to render every slide.\<close>

definition slides_render_fails :: slides_env where
  "slides_render_fails = slides_ok\<lparr>s_render := (\<lambda>i. False)\<rparr>"

definition podcast_ok :: podcast_env where
  "podcast_ok =
     \<lparr>p_client = True, p_script = Resolves (Some ''Alex: Hi. Sam: Hello.''),
      p_audio = Resolves (Some ''UklGRg==''), p_convert = True, p_upload = Stored,
      p_now = 1770000000000\<rparr>"

definition comic_ok :: comic_env where
  "comic_ok =
     \<lparr>c_parse = sample_parse, c_client = True, c_board = Resolves (Some (fenced sample_board_text)),
      c_page = (\<lambda>n. Resolves (Some ''iVBORw0KGgo='')), c_upload = (\<lambda>n. Stored),
      c_now = (\<lambda>n. 1770000000000 + n)\<rparr>"

text \<open>
  A cinematic run in which every stage succeeds, for a script of four scenes. The
  operation of scene \<open>i\<close> is pending when submitted and reports done at its
  \<open>(i + 1)\<close>-th re-fetch.
\<close>

definition pending :: operation where
  "pending = Operation False None"

definition finished :: "nat \<Rightarrow> operation" where
  "finished i = Operation True (Some (Some (''files/clip'' @ show_nat i)))"

definition veo_ok :: veo_env where
  "veo_ok =
     \<lparr>v_parse = sample_parse, v_client = True,
      v_identity = Resolves (Some (fenced sample_identity_text)),
      v_grid = Resolves (Some ''iVBORw0KGgo=''),
      v_script = Resolves (Some sample_script_text),
      v_thumb = (\<lambda>i. Resolves (Some ''iVBORw0KGgo='')),
      v_submit = (\<lambda>i. Resolves pending),
      v_fetch = (\<lambda>i k. Resolves (if k < i then pending else finished i)),
      v_download = (\<lambda>i. True), v_concat = True, v_upload = Stored, v_now = 1770000000000\<rparr>"

text \<open>The same run, except that the operation of the first scene stays pending for ever.\<close>

definition veo_stuck :: veo_env where
  "veo_stuck = veo_ok\<lparr>v_fetch := (\<lambda>i k. Resolves pending)\<rparr>"







section \<open>Vocabulary of the properties\<close>

text \<open>
  The characters to which the filter-graph syntax of the media tool, or the drawtext
  filter's text expansion, gives a meaning: the double quote, \<open>%\<close>, the single quote, the
  comma, the colon, the semicolon, \<open>=\<close>, the brackets, the backslash and the braces.
\<close>

definition breaking_char :: "char \<Rightarrow> bool" where
  "breaking_char c = (of_char c \<in> {34::nat, 37, 39, 44, 58, 59, 61, 91, 92, 93, 123, 125})"

text \<open>The status writes and the uploads among the events of a trace.\<close>

fun publishes :: "event \<Rightarrow> bool" where
  "publishes (DbUpdate k lessonId st urls) = True"
| "publishes (Upload p) = True"
| "publishes e = False"

text \<open>
  What the polling loop of scene \<open>i\<close> sees: the operation \<open>generateVideos\<close> resolved
  with, then the one of each re-fetch. \<open>pending_until env i n\<close>: the first \<open>n\<close> of them are
  there and not done. \<open>done_at env i n video\<close>: the next one is done and carries the file
  \<open>video\<close>.
\<close>

definition observed :: "veo_env \<Rightarrow> nat \<Rightarrow> nat \<Rightarrow> operation call" where
  "observed env i j = (case j of 0 \<Rightarrow> v_submit env i | Suc k \<Rightarrow> v_fetch env i k)"

definition still_pending :: "operation call \<Rightarrow> bool" where
  "still_pending c = (case c of Rejects \<Rightarrow> False | Resolves operation \<Rightarrow> \<not> op_done operation)"

definition pending_until :: "veo_env \<Rightarrow> nat \<Rightarrow> nat \<Rightarrow> bool" where
  "pending_until env i n = list_all (\<lambda>j. still_pending (observed env i j)) [0..<n]"

definition done_at :: "veo_env \<Rightarrow> nat \<Rightarrow> nat \<Rightarrow> string \<Rightarrow> bool" where
  "done_at env i n video =
     (case observed env i n of
        Rejects \<Rightarrow> False
      | Resolves operation \<Rightarrow> op_done operation \<and> op_video operation = Some (Some video))"

text \<open>
  Scene \<open>i\<close> goes through: the scene is not \<open>null\<close>, its thumbnail comes back with a
  payload, its operation is done at the \<open>n\<close>-th re-fetch with the file \<open>video\<close>, and the
  download succeeds.
\<close>

definition scene_succeeds :: "veo_env \<Rightarrow> nat \<Rightarrow> json \<Rightarrow> nat \<Rightarrow> string \<Rightarrow> bool" where
  "scene_succeeds env i scene n video =
     (scene \<noteq> JNull \<and>
      (case v_thumb env i of Rejects \<Rightarrow> False | Resolves thumbB64 \<Rightarrow> \<not> falsy thumbB64) \<and>
      pending_until env i n \<and> done_at env i n video \<and> v_download env i)"

text \<open>
  The events of such a scene: the thumbnail, one submission, \<open>n\<close> rounds of a wait of
  10 seconds followed by a re-fetch, and the download to the scene's clip path.
\<close>

definition scene_events :: "string \<Rightarrow> nat \<Rightarrow> nat \<Rightarrow> string \<Rightarrow> event list" where
  "scene_events tempDir i n video =
     [GenerateContent image_model, GenerateVideos veo_model]
     @ concat (replicate n [Sleep 10000, GetVideosOperation])
     @ [Download video (sceneClipPath tempDir i)]"

text \<open>The submissions of a video-generation operation among the events of a trace.\<close>

fun is_submission :: "event \<Rightarrow> bool" where
  "is_submission (GenerateVideos m) = True"
| "is_submission e = False"


text \<open>The world an outcome carries, whether the statement returned or threw.\<close>

definition world_of :: "'a outcome \<Rightarrow> world" where
  "world_of r = (case r of Done x w \<Rightarrow> w | Thrown e w \<Rightarrow> w)"

section \<open>Properties\<close>

subsection \<open>What each primitive does to each part of the world\<close>

lemma emit_simps [simp]:
  "trace (emit e w) = trace w @ [e]" "files (emit e w) = files w"
  "lessons (emit e w) = lessons w" "bucket (emit e w) = bucket w"
  "processingQueue (emit e w) = processingQueue w"
  by (simp_all add: emit_def)

lemma mkdirSync_simps [simp]:
  "trace (mkdirSync p w) = trace w" "files (mkdirSync p w) = insert p (files w)"
  "lessons (mkdirSync p w) = lessons w" "bucket (mkdirSync p w) = bucket w"
  "processingQueue (mkdirSync p w) = processingQueue w"
  by (simp_all add: mkdirSync_def)

lemma mkdirSync_recursive_simps [simp]:
  "trace (mkdirSync_recursive p w) = trace w"
  "files (mkdirSync_recursive p w) = insert p (insert ''temp'' (files w))"
  "lessons (mkdirSync_recursive p w) = lessons w"
  "bucket (mkdirSync_recursive p w) = bucket w"
  "processingQueue (mkdirSync_recursive p w) = processingQueue w"
  by (simp_all add: mkdirSync_recursive_def)

lemma rmSync_simps [simp]:
  "trace (rmSync p w) = trace w"
  "files (rmSync p w) = Set.filter (\<lambda>q. \<not> inside p q) (files w)"
  "lessons (rmSync p w) = lessons w" "bucket (rmSync p w) = bucket w"
  "processingQueue (rmSync p w) = processingQueue w"
  by (simp_all add: rmSync_def)

lemma unlinkSync_simps [simp]:
  "trace (unlinkSync p w) = trace w" "files (unlinkSync p w) = files w - {p}"
  "lessons (unlinkSync p w) = lessons w" "bucket (unlinkSync p w) = bucket w"
  "processingQueue (unlinkSync p w) = processingQueue w"
  by (simp_all add: unlinkSync_def)

lemma writeFileSync_simps [simp]:
  "trace (writeFileSync p c w) = trace w @ [WriteFile p c]"
  "files (writeFileSync p c w) = insert p (files w)"
  "lessons (writeFileSync p c w) = lessons w" "bucket (writeFileSync p c w) = bucket w"
  "processingQueue (writeFileSync p c w) = processingQueue w"
  by (simp_all add: writeFileSync_def)

lemma produced_simps [simp]:
  "trace (produced p w) = trace w" "files (produced p w) = insert p (files w)"
  "lessons (produced p w) = lessons w" "bucket (produced p w) = bucket w"
  "processingQueue (produced p w) = processingQueue w"
  by (simp_all add: produced_def)

lemma db_update_simps [simp]:
  "trace (db_update k i st us w) = trace w @ [DbUpdate k i st us]"
  "files (db_update k i st us w) = files w"
  "lessons (db_update k i st us w) = (lessons w)((k, i) \<mapsto> st)"
  "bucket (db_update k i st us w) = bucket w"
  "processingQueue (db_update k i st us w) = processingQueue w"
  by (simp_all add: db_update_def)

lemma storage_upload_simps [simp]:
  "storage_upload Stored p w = Done () (emit (Upload p) (w\<lparr>bucket := insert p (bucket w)\<rparr>))"
  "storage_upload Refused p w = Done () (emit (Upload p) w)"
  "storage_upload Failure p w = Thrown StorageError (emit (Upload p) w)"
  by (simp_all add: storage_upload_def)

lemma createVideo_scratch_simps [simp]:
  "trace (createVideo_scratch t w) = trace w" "lessons (createVideo_scratch t w) = lessons w"
  "bucket (createVideo_scratch t w) = bucket w"
  "processingQueue (createVideo_scratch t w) = processingQueue w"
  by (simp_all add: createVideo_scratch_def Let_def)

lemma createVideo_scratch_files:
  "files (createVideo_scratch t w) =
     insert t (insert ''temp''
       (if t \<in> insert ''temp'' (files w)
        then Set.filter (\<lambda>q. \<not> inside t q) (insert ''temp'' (files w))
        else insert ''temp'' (files w)))"
  by (auto simp: createVideo_scratch_def existsSync_def Let_def)

lemma scratch_if_absent_files:
  "files (scratch_if_absent t w) =
     (if t \<in> files w then files w else insert t (insert ''temp'' (files w)))"
  by (simp add: scratch_if_absent_def existsSync_def)

lemma scratch_if_absent_simps [simp]:
  "trace (scratch_if_absent t w) = trace w" "lessons (scratch_if_absent t w) = lessons w"
  "bucket (scratch_if_absent t w) = bucket w"
  "processingQueue (scratch_if_absent t w) = processingQueue w"
  by (simp_all add: scratch_if_absent_def)

lemma w0_simps [simp]:
  "trace w0 = []" "files w0 = {}" "lessons w0 = Map.empty" "bucket w0 = {}"
  "processingQueue w0 = {}"
  by (simp_all add: w0_def)

lemma world_of_simps [simp]:
  "world_of (Done x w) = w" "world_of (Thrown e w) = w"
  by (simp_all add: world_of_def)

lemmas eval_defs = existsSync_def readFileSync_def falsy_def or_else_def Let_def

lemmas path_defs =
  path_join_def resolve_temp_def show_nat.simps digit_char_def inside_def
  createVideo_scratch_files scratch_if_absent_files

subsection \<open>The sample environments\<close>

lemma strip_fenced_samples [simp]:
  "strip_fences (fenced sample_manifest_text) = sample_manifest_text"
  "strip_fences (fenced sample_identity_text) = sample_identity_text"
  "strip_fences (fenced sample_board_text) = sample_board_text"
  "strip_fences sample_script_text = sample_script_text"
  by (simp_all add: strip_fences.simps fenced_def fence_def sample_manifest_text_def
        sample_identity_text_def sample_board_text_def sample_script_text_def
        sample_scene_text_def jq_def dq_def)

lemma trim_samples [simp]:
  "trim sample_identity_text = sample_identity_text"
  "trim sample_board_text = sample_board_text"
  "trim sample_script_text = sample_script_text"
  by (simp_all add: trim_def is_space_def sample_identity_text_def sample_board_text_def
        sample_script_text_def sample_scene_text_def jq_def dq_def)

lemma samples_nonempty [simp]:
  "sample_manifest_text \<noteq> []" "sample_identity_text \<noteq> []" "sample_board_text \<noteq> []"
  "sample_script_text \<noteq> []"
  by (simp_all add: sample_manifest_text_def sample_identity_text_def sample_board_text_def
        sample_script_text_def)

lemma sample_parse_simps [simp]:
  "sample_parse ''[]'' = Some (JArr [])"
  "sample_parse ''{}'' = Some (JObj [])"
  "sample_parse sample_manifest_text = Some sample_manifest"
  "sample_parse sample_identity_text = Some sample_identity"
  "sample_parse sample_script_text = Some sample_script"
  "sample_parse sample_board_text = Some sample_board"
  "sample_parse [] = None"
  "sample_parse ''not json'' = None"
  by (simp_all add: sample_parse_def sample_manifest_text_def sample_identity_text_def
        sample_board_text_def sample_script_text_def sample_scene_text_def jq_def dq_def)

lemma slides_ok_simps [simp]:
  "s_parse slides_ok = sample_parse" "s_client slides_ok = True"
  "s_script slides_ok = Resolves (Some (fenced sample_manifest_text))"
  "s_image slides_ok i = Resolves (Some ''iVBORw0KGgo='')"
  "s_audio slides_ok i = Resolves (Some ''UklGRg=='')"
  "s_convert slides_ok i = True" "s_render slides_ok i = True" "s_stitch slides_ok = True"
  "s_upload slides_ok = Stored" "s_now slides_ok = 1770000000000"
  by (simp_all add: slides_ok_def)

lemma slides_render_fails_simps [simp]:
  "s_parse slides_render_fails = sample_parse" "s_client slides_render_fails = True"
  "s_script slides_render_fails = Resolves (Some (fenced sample_manifest_text))"
  "s_image slides_render_fails i = Resolves (Some ''iVBORw0KGgo='')"
  "s_audio slides_render_fails i = Resolves (Some ''UklGRg=='')"
  "s_convert slides_render_fails i = True" "s_render slides_render_fails i = False"
  by (simp_all add: slides_render_fails_def slides_ok_def)

lemma podcast_ok_simps [simp]:
  "p_client podcast_ok = True" "p_script podcast_ok = Resolves (Some ''Alex: Hi. Sam: Hello.'')"
  "p_audio podcast_ok = Resolves (Some ''UklGRg=='')" "p_convert podcast_ok = True"
  "p_upload podcast_ok = Stored" "p_now podcast_ok = 1770000000000"
  by (simp_all add: podcast_ok_def)

lemma comic_ok_simps [simp]:
  "c_parse comic_ok = sample_parse" "c_client comic_ok = True"
  "c_board comic_ok = Resolves (Some (fenced sample_board_text))"
  "c_page comic_ok n = Resolves (Some ''iVBORw0KGgo='')" "c_upload comic_ok n = Stored"
  "c_now comic_ok n = 1770000000000 + n"
  by (simp_all add: comic_ok_def)

lemma veo_ok_simps [simp]:
  "v_parse veo_ok = sample_parse" "v_client veo_ok = True"
  "v_identity veo_ok = Resolves (Some (fenced sample_identity_text))"
  "v_grid veo_ok = Resolves (Some ''iVBORw0KGgo='')"
  "v_script veo_ok = Resolves (Some sample_script_text)"
  "v_thumb veo_ok i = Resolves (Some ''iVBORw0KGgo='')"
  "v_submit veo_ok i = Resolves pending"
  "v_fetch veo_ok i k = Resolves (if k < i then pending else finished i)"
  "v_download veo_ok i = True" "v_concat veo_ok = True" "v_upload veo_ok = Stored"
  "v_now veo_ok = 1770000000000"
  by (simp_all add: veo_ok_def)

lemma veo_ok_scene:
  "scene \<noteq> JNull \<Longrightarrow>
   scene_succeeds (veo_ok\<lparr>v_upload := u\<rparr>) j scene (Suc j) (''files/clip'' @ show_nat j)"
  by (auto simp: scene_succeeds_def pending_until_def done_at_def list_all_iff observed_def
        still_pending_def falsy_def pending_def finished_def split: nat.splits)

lemma sample_scenes_not_null:
  "j < 4 \<Longrightarrow> [sample_scene 1, sample_scene 2, sample_scene 3, sample_scene 4] ! j \<noteq> JNull"
  by (auto simp: sample_scene_def less_Suc_eq numeral_eq_Suc)

lemmas slides_defs = createVideo_run_def createVideo_def createVideo_try_def createVideo_catch_def
  stitcher_on_end_def stitcher_on_error_def process_slide_def slide_assets_def convert_audio_def
  render_slide_def slide_texts_def sample_manifest_def

lemmas podcast_defs = createPodcast_def createPodcast_try_def createPodcast_catch_def

lemmas comic_defs = createComic_def createComic_try_def createComic_catch_def render_page_def
  sample_board_def template_def show_int_def

lemma filter_publishes_scene [simp]:
  "filter publishes (scene_events tempDir i n video) = []"
  by (induction n) (simp_all add: scene_events_def)

lemma filter_publishes_scenes [simp]:
  "filter publishes (concat (map (\<lambda>k. scene_events tempDir k (n k) (video k)) ks)) = []"
  by (induction ks) simp_all

subsection \<open>The polling loop and the scenes\<close>

lemma poll_steps:
  "\<lbrakk>\<forall>j<n. fetch (k + j) = Resolves (seq (Suc j)); \<forall>j<n. \<not> op_done (seq j); op_done (seq n)\<rbrakk>
   \<Longrightarrow> poll fetch k (seq 0) w =
       Some (Done (seq n) (w\<lparr>trace := trace w @ concat (replicate n [Sleep 10000, GetVideosOperation])\<rparr>))"
proof (induction n arbitrary: k seq w)
  case 0
  then show ?case by (subst poll.simps) simp
next
  case (Suc n)
  have nd: "\<not> op_done (seq 0)" using Suc.prems(2) by simp
  have f0: "fetch k = Resolves (seq 1)" using Suc.prems(1)[rule_format, of 0] by simp
  have IH: "poll fetch (Suc k) ((\<lambda>j. seq (Suc j)) 0) w' =
       Some (Done ((\<lambda>j. seq (Suc j)) n) (w'\<lparr>trace := trace w' @ concat (replicate n [Sleep 10000, GetVideosOperation])\<rparr>))" for w'
    apply (rule Suc.IH)
    using Suc.prems by auto
  show ?case
    apply (subst poll.simps)
    using nd f0 IH by (simp add: emit_def)
qed

text \<open>the sequence of operations the loop of scene i holds\<close>

lemma observed_seq:
  assumes "pending_until env i n" "done_at env i n video"
  shows "\<exists>seq. v_submit env i = Resolves (seq 0) \<and> (\<forall>j<n. v_fetch env i j = Resolves (seq (Suc j)))
            \<and> (\<forall>j<n. \<not> op_done (seq j)) \<and> op_done (seq n) \<and> op_video (seq n) = Some (Some video)"
proof -
  define seq where "seq j = (case observed env i j of Resolves operation \<Rightarrow> operation | Rejects \<Rightarrow> Operation True None)" for j
  have p: "still_pending (observed env i j)" if "j < n" for j
    using assms(1) that by (simp add: pending_until_def list_all_iff)
  have r: "observed env i j = Resolves (seq j)" if "j \<le> n" for j
  proof (cases "j < n")
    case True
    from p[OF this] show ?thesis by (simp add: seq_def still_pending_def split: call.splits)
  next
    case False
    with that have "j = n" by simp
    with assms(2) show ?thesis by (simp add: seq_def done_at_def split: call.splits)
  qed
  have "v_submit env i = Resolves (seq 0)" using r[of 0] by (simp add: observed_def)
  moreover have "\<forall>j<n. v_fetch env i j = Resolves (seq (Suc j))"
  proof (intro allI impI)
    fix j assume "j < n"
    then have "Suc j \<le> n" by simp
    from r[OF this] show "v_fetch env i j = Resolves (seq (Suc j))" by (simp add: observed_def)
  qed
  moreover have "\<forall>j<n. \<not> op_done (seq j)"
    using p r by (auto simp: still_pending_def split: call.splits)
  moreover have "op_done (seq n) \<and> op_video (seq n) = Some (Some video)"
    using assms(2) r[of n] by (simp add: done_at_def)
  ultimately show ?thesis by blast
qed

lemma produce_scene_success:
  assumes "scene_succeeds env i scene n video"
  shows "\<exists>w'. produce_scene env tempDir i scene w = Some (Done (sceneClipPath tempDir i) w')
           \<and> trace w' = trace w @ scene_events tempDir i n video
           \<and> lessons w' = lessons w \<and> bucket w' = bucket w \<and> processingQueue w' = processingQueue w"
proof -
  from assms have nn: "scene \<noteq> JNull" and dl: "v_download env i"
    and pu: "pending_until env i n" and da: "done_at env i n video"
    by (simp_all add: scene_succeeds_def)
  from assms obtain thumb where th: "v_thumb env i = Resolves thumb" "\<not> falsy thumb"
    by (auto simp: scene_succeeds_def split: call.splits)
  from observed_seq[OF pu da] obtain seq where
    s: "v_submit env i = Resolves (seq 0)" "\<forall>j<n. v_fetch env i (0 + j) = Resolves (seq (Suc j))"
       "\<forall>j<n. \<not> op_done (seq j)" "op_done (seq n)" "op_video (seq n) = Some (Some video)"
    by auto
  from nn obtain prompt where g: "js_get scene ''action_prompt'' = Inr prompt"
    by (cases scene) simp_all
  note ps = poll_steps[OF s(2) s(3) s(4)]
  show ?thesis
    by (simp add: produce_scene_def g th s(1) ps fetch_clip_def s(5) dl Let_def scene_events_def)
qed


lemma scene_loop_success:
  assumes "\<forall>j<length scenes. scene_succeeds env (i + j) (scenes ! j) (n (i + j)) (video (i + j))"
  shows "\<exists>w'. scene_loop env tempDir i scenes clips w =
               Some (Done (clips @ map (sceneClipPath tempDir) [i..<i + length scenes]) w')
           \<and> trace w' = trace w @ concat (map (\<lambda>k. scene_events tempDir k (n k) (video k))
                                           [i..<i + length scenes])
           \<and> lessons w' = lessons w \<and> bucket w' = bucket w \<and> processingQueue w' = processingQueue w"
  using assms
proof (induction scenes arbitrary: i clips w)
  case Nil
  then show ?case by simp
next
  case (Cons scene rest)
  from Cons.prems[rule_format, of 0] have "scene_succeeds env i scene (n i) (video i)" by simp
  from produce_scene_success[OF this, of tempDir w] obtain w1 where
    w1: "produce_scene env tempDir i scene w = Some (Done (sceneClipPath tempDir i) w1)"
        "trace w1 = trace w @ scene_events tempDir i (n i) (video i)"
        "lessons w1 = lessons w" "bucket w1 = bucket w" "processingQueue w1 = processingQueue w"
    by blast
  have "\<forall>j<length rest. scene_succeeds env (Suc i + j) (rest ! j) (n (Suc i + j)) (video (Suc i + j))"
    using Cons.prems by (auto dest: spec[where x="Suc j" for j])
  from Cons.IH[OF this, of "clips @ [sceneClipPath tempDir i]" w1] obtain w' where
    w': "scene_loop env tempDir (Suc i) rest (clips @ [sceneClipPath tempDir i]) w1 =
           Some (Done ((clips @ [sceneClipPath tempDir i]) @ map (sceneClipPath tempDir) [Suc i..<Suc i + length rest]) w')"
        "trace w' = trace w1 @ concat (map (\<lambda>k. scene_events tempDir k (n k) (video k)) [Suc i..<Suc i + length rest])"
        "lessons w' = lessons w1" "bucket w' = bucket w1" "processingQueue w' = processingQueue w1"
    by blast
  have upt: "[i..<i + length (scene # rest)] = i # [Suc i..<Suc i + length rest]"
    by (subst upt_rec) simp
  show ?case
    unfolding upt by (rule exI[of _ w']) (simp add: w1 w' del: upt_Suc)
qed

lemma pending_for_ever:
  assumes "\<forall>n. pending_until env i n"
  shows "\<exists>seq. v_submit env i = Resolves (seq 0) \<and> (\<forall>j. v_fetch env i (0 + j) = Resolves (seq (Suc j)))
               \<and> (\<forall>j. \<not> op_done (seq j))"
proof -
  define seq where "seq j = (case observed env i j of Resolves operation \<Rightarrow> operation | Rejects \<Rightarrow> Operation True None)" for j
  have p: "still_pending (observed env i j)" for j
    using assms[rule_format, of "Suc j"] by (simp add: pending_until_def list_all_iff)
  have r: "observed env i j = Resolves (seq j) \<and> \<not> op_done (seq j)" for j
    using p[of j] by (simp add: seq_def still_pending_def split: call.splits)
  have "v_submit env i = Resolves (seq 0)" using r[of 0] by (simp add: observed_def)
  moreover have "v_fetch env i (0 + j) = Resolves (seq (Suc j))" for j
    using r[of "Suc j"] by (simp add: observed_def)
  ultimately show ?thesis using r by blast
qed

lemma poll_never_aux:
  assumes nd: "\<forall>j. \<not> op_done (seq j)"
  shows "poll f k' operation w' = Some r \<Longrightarrow>
     (\<forall>j. f (k + j) = Resolves (seq (Suc j))) \<longrightarrow> (\<forall>d. k' = k + d \<longrightarrow> operation \<noteq> seq d)"
proof (rule poll.raw_induct[where P = "\<lambda>f k' operation w' r.
     (\<forall>j. f (k + j) = Resolves (seq (Suc j))) \<longrightarrow> (\<forall>d. k' = k + d \<longrightarrow> operation \<noteq> seq d)"])
  fix pl f k' operation w' r
  assume IH: "\<And>f k' operation w' r. pl f k' operation w' = Some r \<Longrightarrow>
     (\<forall>j. f (k + j) = Resolves (seq (Suc j))) \<longrightarrow> (\<forall>d. k' = k + d \<longrightarrow> operation \<noteq> seq d)"
    and step: "(if op_done operation then Some (Done operation w')
      else case f k' of
             Rejects \<Rightarrow> Some (Thrown ServiceError (emit GetVideosOperation (emit (Sleep 10000) w')))
           | Resolves operation' \<Rightarrow>
               pl f (Suc k') operation' (emit GetVideosOperation (emit (Sleep 10000) w'))) = Some r"
  show "(\<forall>j. f (k + j) = Resolves (seq (Suc j))) \<longrightarrow> (\<forall>d. k' = k + d \<longrightarrow> operation \<noteq> seq d)"
  proof (intro impI allI notI)
    fix d assume a: "\<forall>j. f (k + j) = Resolves (seq (Suc j))" "k' = k + d" "operation = seq d"
    have "pl f (Suc k') (seq (Suc d)) (emit GetVideosOperation (emit (Sleep 10000) w')) = Some r"
      using step a nd by simp
    from IH[OF this] a show False by simp
  qed
qed

lemma poll_never:
  assumes "\<forall>j. fetch (k + j) = Resolves (seq (Suc j))" "\<forall>j. \<not> op_done (seq j)"
  shows "poll fetch k (seq 0) w = None"
proof (cases "poll fetch k (seq 0) w")
  case (Some r)
  from poll_never_aux[OF assms(2) Some, of k] assms(1)
  have "\<forall>d. k = k + d \<longrightarrow> seq 0 \<noteq> seq d" by blast
  from this[rule_format, of 0] show ?thesis by simp
qed simp


lemma produce_scene_blocked:
  assumes "scene \<noteq> JNull" "v_thumb env i = Resolves thumb" "\<not> falsy thumb" "\<forall>n. pending_until env i n"
  shows "produce_scene env tempDir i scene w = None"
proof -
  from pending_for_ever[OF assms(4)] obtain seq where
    s: "v_submit env i = Resolves (seq 0)" "\<forall>j. v_fetch env i (0 + j) = Resolves (seq (Suc j))"
       "\<forall>j. \<not> op_done (seq j)"
    by blast
  from assms(1) obtain prompt where g: "js_get scene ''action_prompt'' = Inr prompt"
    by (cases scene) simp_all
  show ?thesis
    by (simp add: produce_scene_def g assms(2,3) s(1) poll_never[OF s(2) s(3)] Let_def)
qed


lemma structured_reply_success:
  assumes "reply = Resolves (Some t)" "trim (strip_fences t) \<noteq> []"
    "parse (trim (strip_fences t)) = Some v"
  shows "structured_reply parse reply w = Done v (emit (GenerateContent text_model) w)"
  using assms by (simp add: structured_reply_def eval_defs)

lemma character_grid_success:
  assumes "visualId \<noteq> JNull" "v_grid env = Resolves (Some g)" "g \<noteq> []"
  shows "character_grid env visualId w = Done () (emit (GenerateContent image_model) w)"
proof -
  from assms(1) obtain d where "js_get visualId ''protagonist_description'' = Inr d"
    by (cases visualId) simp_all
  with assms show ?thesis by (simp add: character_grid_def eval_defs)
qed

lemma stitch_and_publish_success:
  assumes "v_concat env" "v_upload env \<noteq> Failure"
  shows "\<exists>w'. stitch_and_publish env lessonId videoClips w = Done () w'
     \<and> trace w' = trace w @
          [WriteFile (path_join (resolve_temp (''veo_'' @ lessonId)) ''clips.txt'') (fileListContent videoClips),
           Ffmpeg [path_join (resolve_temp (''veo_'' @ lessonId)) ''clips.txt''] [''-f concat'', ''-safe 0'']
             None [''-c copy''] (path_join (resolve_temp (''veo_'' @ lessonId)) ''final_cinematic.mp4''),
           Upload (lessonId @ ''/cinematic_'' @ show_nat (v_now env) @ ''.mp4''),
           DbUpdate CinematicVideo lessonId Ready
             [getPublicUrl (lessonId @ ''/cinematic_'' @ show_nat (v_now env) @ ''.mp4'')]]
     \<and> lessons w' = (lessons w)((CinematicVideo, lessonId) \<mapsto> Ready)
     \<and> bucket w' = (if v_upload env = Stored
                     then insert (lessonId @ ''/cinematic_'' @ show_nat (v_now env) @ ''.mp4'') (bucket w)
                     else bucket w)
     \<and> processingQueue w' = processingQueue w"
  using assms by (cases "v_upload env") (simp_all add: stitch_and_publish_def eval_defs)

lemma cinematic_success:
  assumes "v_client env"
    and "v_identity env = Resolves (Some t1)" "trim (strip_fences t1) \<noteq> []"
        "v_parse env (trim (strip_fences t1)) = Some visualId" "visualId \<noteq> JNull"
    and "v_grid env = Resolves (Some g)" "g \<noteq> []"
    and "v_script env = Resolves (Some t2)" "trim (strip_fences t2) \<noteq> []"
        "v_parse env (trim (strip_fences t2)) = Some (JArr scenes)"
    and "\<forall>j<length scenes. scene_succeeds env j (scenes ! j) (n j) (video j)"
    and "v_concat env" "v_upload env \<noteq> Failure"
  shows "\<exists>w'. produceCinematicExplainer env lessonId studentId w = Some (Done () w')
     \<and> trace w' = trace w @
          [DbSelectStudent studentId, DbUpdate CinematicVideo lessonId Processing [],
           GenerateContent text_model, GenerateContent image_model, GenerateContent text_model]
          @ concat (map (\<lambda>k. scene_events (resolve_temp (''veo_'' @ lessonId)) k (n k) (video k))
                      [0..<length scenes])
          @ [WriteFile (path_join (resolve_temp (''veo_'' @ lessonId)) ''clips.txt'')
               (fileListContent (map (sceneClipPath (resolve_temp (''veo_'' @ lessonId))) [0..<length scenes])),
             Ffmpeg [path_join (resolve_temp (''veo_'' @ lessonId)) ''clips.txt''] [''-f concat'', ''-safe 0'']
               None [''-c copy''] (path_join (resolve_temp (''veo_'' @ lessonId)) ''final_cinematic.mp4''),
             Upload (lessonId @ ''/cinematic_'' @ show_nat (v_now env) @ ''.mp4''),
             DbUpdate CinematicVideo lessonId Ready
               [getPublicUrl (lessonId @ ''/cinematic_'' @ show_nat (v_now env) @ ''.mp4'')]]
     \<and> lessons w' = (lessons w)((CinematicVideo, lessonId) \<mapsto> Ready)
     \<and> bucket w' = (if v_upload env = Stored
                     then insert (lessonId @ ''/cinematic_'' @ show_nat (v_now env) @ ''.mp4'') (bucket w)
                     else bucket w)
     \<and> processingQueue w' = processingQueue w"
proof -
  define tempDir where "tempDir = resolve_temp (''veo_'' @ lessonId)"
  define w5 where "w5 = emit (GenerateContent text_model) (emit (GenerateContent image_model)
               (emit (GenerateContent text_model) (db_update CinematicVideo lessonId Processing []
               (emit (DbSelectStudent studentId) (scratch_if_absent tempDir w)))))"
  have sc: "\<forall>j<length scenes. scene_succeeds env (0 + j) (scenes ! j) (n (0 + j)) (video (0 + j))"
    using assms(11) by simp
  from scene_loop_success[OF sc, of tempDir "[]" w5] obtain w6 where
    w6: "scene_loop env tempDir 0 scenes [] w5 =
           Some (Done (map (sceneClipPath tempDir) [0..<length scenes]) w6)"
        "trace w6 = trace w5 @ concat (map (\<lambda>k. scene_events tempDir k (n k) (video k)) [0..<length scenes])"
        "lessons w6 = lessons w5" "bucket w6 = bucket w5" "processingQueue w6 = processingQueue w5"
    by auto
  from stitch_and_publish_success[OF assms(12,13), of lessonId "map (sceneClipPath tempDir) [0..<length scenes]" w6]
  obtain w' where w': "stitch_and_publish env lessonId (map (sceneClipPath tempDir) [0..<length scenes]) w6 = Done () w'"
     "trace w' = trace w6 @
          [WriteFile (path_join tempDir ''clips.txt'') (fileListContent (map (sceneClipPath tempDir) [0..<length scenes])),
           Ffmpeg [path_join tempDir ''clips.txt''] [''-f concat'', ''-safe 0'']
             None [''-c copy''] (path_join tempDir ''final_cinematic.mp4''),
           Upload (lessonId @ ''/cinematic_'' @ show_nat (v_now env) @ ''.mp4''),
           DbUpdate CinematicVideo lessonId Ready
             [getPublicUrl (lessonId @ ''/cinematic_'' @ show_nat (v_now env) @ ''.mp4'')]]"
     "lessons w' = (lessons w6)((CinematicVideo, lessonId) \<mapsto> Ready)"
     "bucket w' = (if v_upload env = Stored
                     then insert (lessonId @ ''/cinematic_'' @ show_nat (v_now env) @ ''.mp4'') (bucket w6)
                     else bucket w6)"
     "processingQueue w' = processingQueue w6"
    unfolding tempDir_def by blast
  have run: "produceCinematicExplainer env lessonId studentId w = Some (Done () w')"
    unfolding produceCinematicExplainer_def produceCinematicExplainer_try_def Let_def
      tempDir_def[symmetric]
    by (simp add: assms(1)
          structured_reply_success[of "v_identity env" t1 "v_parse env", OF assms(2,3,4)]
          character_grid_success[OF assms(5,6,7)]
          structured_reply_success[of "v_script env" t2 "v_parse env", OF assms(8,9,10)]
          w5_def[symmetric] w6(1) w'(1))
  show ?thesis
    unfolding tempDir_def[symmetric]
    by (rule exI[of _ w']) (simp add: run w' w6 w5_def)
qed

text \<open>The sample cinematic run, whatever the storage client answers short of rejecting.\<close>

lemma veo_ok_run:
  assumes "u \<noteq> Failure"
  shows "\<exists>w'. produceCinematicExplainer (veo_ok\<lparr>v_upload := u\<rparr>) ''L1'' ''S1'' w = Some (Done () w')
     \<and> trace w' = trace w @
          [DbSelectStudent ''S1'', DbUpdate CinematicVideo ''L1'' Processing [],
           GenerateContent text_model, GenerateContent image_model, GenerateContent text_model]
          @ concat (map (\<lambda>k. scene_events (resolve_temp ''veo_L1'') k (Suc k) (''files/clip'' @ show_nat k))
                      [0..<4])
          @ [WriteFile (path_join (resolve_temp ''veo_L1'') ''clips.txt'')
               (fileListContent (map (sceneClipPath (resolve_temp ''veo_L1'')) [0..<4])),
             Ffmpeg [path_join (resolve_temp ''veo_L1'') ''clips.txt''] [''-f concat'', ''-safe 0'']
               None [''-c copy''] (path_join (resolve_temp ''veo_L1'') ''final_cinematic.mp4''),
             Upload (''L1/cinematic_'' @ show_nat 1770000000000 @ ''.mp4''),
             DbUpdate CinematicVideo ''L1'' Ready
               [getPublicUrl (''L1/cinematic_'' @ show_nat 1770000000000 @ ''.mp4'')]]
     \<and> lessons w' = (lessons w)((CinematicVideo, ''L1'') \<mapsto> Ready)
     \<and> bucket w' = (if u = Stored
                     then insert (''L1/cinematic_'' @ show_nat 1770000000000 @ ''.mp4'') (bucket w)
                     else bucket w)
     \<and> processingQueue w' = processingQueue w"
proof -
  have sc: "\<forall>j<length [sample_scene 1, sample_scene 2, sample_scene 3, sample_scene 4].
              scene_succeeds (veo_ok\<lparr>v_upload := u\<rparr>) j
                ([sample_scene 1, sample_scene 2, sample_scene 3, sample_scene 4] ! j) (Suc j)
                (''files/clip'' @ show_nat j)"
  proof (intro allI impI)
    fix j assume "j < length [sample_scene 1, sample_scene 2, sample_scene 3, sample_scene 4]"
    then have "j < 4" by simp
    from sample_scenes_not_null[OF this]
    show "scene_succeeds (veo_ok\<lparr>v_upload := u\<rparr>) j
                ([sample_scene 1, sample_scene 2, sample_scene 3, sample_scene 4] ! j) (Suc j)
                (''files/clip'' @ show_nat j)"
      by (rule veo_ok_scene)
  qed
  have len: "length [sample_scene 1, sample_scene 2, sample_scene 3, sample_scene 4] = 4"
    by simp
  have p1: "v_client (veo_ok\<lparr>v_upload := u\<rparr>)" by simp
  have p2: "v_identity (veo_ok\<lparr>v_upload := u\<rparr>) = Resolves (Some (fenced sample_identity_text))"
    by simp
  have p3: "trim (strip_fences (fenced sample_identity_text)) \<noteq> []" by simp
  have p4: "v_parse (veo_ok\<lparr>v_upload := u\<rparr>) (trim (strip_fences (fenced sample_identity_text)))
              = Some sample_identity" by simp
  have p5: "sample_identity \<noteq> JNull" by (simp add: sample_identity_def)
  have p6: "v_grid (veo_ok\<lparr>v_upload := u\<rparr>) = Resolves (Some ''iVBORw0KGgo='')" by simp
  have p7: "''iVBORw0KGgo='' \<noteq> []" by simp
  have p8: "v_script (veo_ok\<lparr>v_upload := u\<rparr>) = Resolves (Some sample_script_text)" by simp
  have p9: "trim (strip_fences sample_script_text) \<noteq> []" by simp
  have p10: "v_parse (veo_ok\<lparr>v_upload := u\<rparr>) (trim (strip_fences sample_script_text))
              = Some (JArr [sample_scene 1, sample_scene 2, sample_scene 3, sample_scene 4])"
    by (simp add: sample_script_def)
  have p12: "v_concat (veo_ok\<lparr>v_upload := u\<rparr>)" by simp
  have p13: "v_upload (veo_ok\<lparr>v_upload := u\<rparr>) \<noteq> Failure" using assms by simp
  have u: "v_upload (veo_ok\<lparr>v_upload := u\<rparr>) = u" "v_now (veo_ok\<lparr>v_upload := u\<rparr>) = 1770000000000"
     "''veo_'' @ ''L1'' = ''veo_L1''" "''L1'' @ ''/cinematic_'' @ x = ''L1/cinematic_'' @ x" for x
    by simp_all
  from cinematic_success[OF p1 p2 p3 p4 p5 p6 p7 p8 p9 p10 sc p12 p13, of "''L1''" "''S1''" w]
  show ?thesis unfolding len u .
qed

lemma cinematic_blocked:
  assumes "v_client env"
    and "v_identity env = Resolves (Some t1)" "trim (strip_fences t1) \<noteq> []"
        "v_parse env (trim (strip_fences t1)) = Some visualId" "visualId \<noteq> JNull"
    and "v_grid env = Resolves (Some g)" "g \<noteq> []"
    and "v_script env = Resolves (Some t2)" "trim (strip_fences t2) \<noteq> []"
        "v_parse env (trim (strip_fences t2)) = Some (JArr (scene # rest))"
    and "scene \<noteq> JNull" "v_thumb env 0 = Resolves thumb" "\<not> falsy thumb"
        "\<forall>n. pending_until env 0 n"
  shows "produceCinematicExplainer env lessonId studentId w = None"
  unfolding produceCinematicExplainer_def produceCinematicExplainer_try_def Let_def
  by (simp add: assms(1)
        structured_reply_success[of "v_identity env" t1 "v_parse env", OF assms(2,3,4)]
        character_grid_success[OF assms(5,6,7)]
        structured_reply_success[of "v_script env" t2 "v_parse env", OF assms(8,9,10)]
        produce_scene_blocked[OF assms(11,12,13,14)])

lemma veo_stuck_simps [simp]:
  "v_parse veo_stuck = sample_parse" "v_client veo_stuck = True"
  "v_identity veo_stuck = Resolves (Some (fenced sample_identity_text))"
  "v_grid veo_stuck = Resolves (Some ''iVBORw0KGgo='')"
  "v_script veo_stuck = Resolves (Some sample_script_text)"
  "v_thumb veo_stuck i = Resolves (Some ''iVBORw0KGgo='')"
  "v_submit veo_stuck i = Resolves pending"
  "v_fetch veo_stuck i k = Resolves pending"
  by (simp_all add: veo_stuck_def)

lemma veo_stuck_pending: "pending_until veo_stuck i m"
  by (auto simp: pending_until_def list_all_iff observed_def still_pending_def pending_def
        split: nat.splits)

text \<open>
  C8. A video-generation stage submits the request and then polls: while the operation it
  holds is not done it waits 10000 ms and fetches the operation again, with no bound on
  the number of rounds. If the operation is done at the \<open>n\<close>-th re-fetch and carries a
  video, the stage has made exactly \<open>n\<close> rounds of one 10-second wait and one re-fetch,
  and then downloads that video to \<open>tempDir/scene_<i+1>.mp4\<close>, which it returns. If the
  operation never reports done, the stage never returns, and neither do the scene loop
  and the job: \<open>produceCinematicExplainer\<close> is \<open>None\<close>, it never settles.
\<close>

theorem video_stage_polls_until_done:
  "(scene_succeeds env i scene n video \<longrightarrow>
      (\<exists>w'. produce_scene env tempDir i scene w = Some (Done (sceneClipPath tempDir i) w') \<and>
            trace w' = trace w @ scene_events tempDir i n video)) \<and>
   (scene \<noteq> JNull \<and> v_thumb env i = Resolves thumb \<and> \<not> falsy thumb \<and>
    (\<forall>m. pending_until env i m) \<longrightarrow>
      produce_scene env tempDir i scene w = None \<and>
      scene_loop env tempDir i (scene # rest) videoClips w = None) \<and>
   (v_client env \<and>
    v_identity env = Resolves (Some t1) \<and> trim (strip_fences t1) \<noteq> [] \<and>
    v_parse env (trim (strip_fences t1)) = Some visualId \<and> visualId \<noteq> JNull \<and>
    v_grid env = Resolves (Some g) \<and> g \<noteq> [] \<and>
    v_script env = Resolves (Some t2) \<and> trim (strip_fences t2) \<noteq> [] \<and>
    v_parse env (trim (strip_fences t2)) = Some (JArr (scene # rest)) \<and>
    scene \<noteq> JNull \<and> v_thumb env 0 = Resolves thumb \<and> \<not> falsy thumb \<and>
    (\<forall>m. pending_until env 0 m) \<longrightarrow>
      produceCinematicExplainer env lessonId studentId w = None)"
proof (intro conjI impI)
  assume "scene_succeeds env i scene n video"
  from produce_scene_success[OF this, of tempDir w]
  show "\<exists>w'. produce_scene env tempDir i scene w = Some (Done (sceneClipPath tempDir i) w') \<and>
            trace w' = trace w @ scene_events tempDir i n video"
    by blast
next
  assume a: "scene \<noteq> JNull \<and> v_thumb env i = Resolves thumb \<and> \<not> falsy thumb \<and>
    (\<forall>m. pending_until env i m)"
  then show b: "produce_scene env tempDir i scene w = None"
    using produce_scene_blocked[of scene env i thumb tempDir w] by blast
  then show "scene_loop env tempDir i (scene # rest) videoClips w = None" by simp
next
  assume "v_client env \<and>
    v_identity env = Resolves (Some t1) \<and> trim (strip_fences t1) \<noteq> [] \<and>
    v_parse env (trim (strip_fences t1)) = Some visualId \<and> visualId \<noteq> JNull \<and>
    v_grid env = Resolves (Some g) \<and> g \<noteq> [] \<and>
    v_script env = Resolves (Some t2) \<and> trim (strip_fences t2) \<noteq> [] \<and>
    v_parse env (trim (strip_fences t2)) = Some (JArr (scene # rest)) \<and>
    scene \<noteq> JNull \<and> v_thumb env 0 = Resolves thumb \<and> \<not> falsy thumb \<and>
    (\<forall>m. pending_until env 0 m)"
  then show "produceCinematicExplainer env lessonId studentId w = None"
    using cinematic_blocked[where ?t1.0 = t1 and ?t2.0 = t2 and g = g and visualId = visualId
          and scene = scene and rest = rest and thumb = thumb and env = env
          and lessonId = lessonId and studentId = studentId and w = w]
    by blast
qed

theorem video_stage_polls_until_done_witness:
  "scene_succeeds veo_ok 2 (sample_scene 3) 3 ''files/clip2'' \<and>
   map_option (trace \<circ> world_of) (produce_scene veo_ok ''temp/veo_L1'' 2 (sample_scene 3) w0) =
     Some [GenerateContent image_model, GenerateVideos veo_model,
           Sleep 10000, GetVideosOperation, Sleep 10000, GetVideosOperation,
           Sleep 10000, GetVideosOperation,
           Download ''files/clip2'' ''temp/veo_L1/scene_3.mp4''] \<and>
   pending_until veo_stuck 0 7 \<and>
   produce_scene veo_stuck ''temp/veo_L1'' 0 (sample_scene 1) w0 = None \<and>
   scene_loop veo_stuck ''temp/veo_L1'' 0 [sample_scene 1, sample_scene 2] [] w0 = None \<and>
   produceCinematicExplainer veo_stuck ''L1'' ''S1'' w0 = None"
proof -
  have ok: "scene_succeeds veo_ok 2 (sample_scene 3) 3 ''files/clip2''"
    using veo_ok_scene[of "sample_scene 3" Stored 2]
    by (simp add: sample_scene_def veo_ok_def show_nat.simps digit_char_def numeral_3_eq_3)
  have stuck: "sample_scene 1 \<noteq> JNull \<and> v_thumb veo_stuck 0 = Resolves (Some ''iVBORw0KGgo='') \<and>
      \<not> falsy (Some ''iVBORw0KGgo='') \<and> (\<forall>m. pending_until veo_stuck 0 m)"
    by (simp add: sample_scene_def falsy_def veo_stuck_pending)
  have job: "v_client veo_stuck \<and>
    v_identity veo_stuck = Resolves (Some (fenced sample_identity_text)) \<and>
    trim (strip_fences (fenced sample_identity_text)) \<noteq> [] \<and>
    v_parse veo_stuck (trim (strip_fences (fenced sample_identity_text))) = Some sample_identity \<and>
    sample_identity \<noteq> JNull \<and>
    v_grid veo_stuck = Resolves (Some ''iVBORw0KGgo='') \<and> ''iVBORw0KGgo='' \<noteq> [] \<and>
    v_script veo_stuck = Resolves (Some sample_script_text) \<and>
    trim (strip_fences sample_script_text) \<noteq> [] \<and>
    v_parse veo_stuck (trim (strip_fences sample_script_text))
      = Some (JArr (sample_scene 1 # [sample_scene 2, sample_scene 3, sample_scene 4])) \<and>
    sample_scene 1 \<noteq> JNull \<and> v_thumb veo_stuck 0 = Resolves (Some ''iVBORw0KGgo='') \<and>
    \<not> falsy (Some ''iVBORw0KGgo='') \<and> (\<forall>m. pending_until veo_stuck 0 m)"
    by (simp add: sample_scene_def sample_identity_def sample_script_def falsy_def veo_stuck_pending)
  note thm1 = video_stage_polls_until_done[where env = veo_ok and i = 2 and scene = "sample_scene 3"
      and n = 3 and video = "''files/clip2''" and tempDir = "''temp/veo_L1''" and w = w0,
      THEN conjunct1, rule_format, OF ok]
  note thm2 = video_stage_polls_until_done[where env = veo_stuck and i = 0 and scene = "sample_scene 1"
      and thumb = "Some ''iVBORw0KGgo=''" and tempDir = "''temp/veo_L1''" and w = w0
      and rest = "[sample_scene 2]" and videoClips = "[]",
      THEN conjunct2, THEN conjunct1, rule_format, OF stuck]
  note thm3 = video_stage_polls_until_done[where env = veo_stuck and scene = "sample_scene 1"
      and thumb = "Some ''iVBORw0KGgo=''" and w = w0 and lessonId = "''L1''" and studentId = "''S1''"
      and rest = "[sample_scene 2, sample_scene 3, sample_scene 4]"
      and ?t1.0 = "fenced sample_identity_text" and ?t2.0 = sample_script_text
      and visualId = sample_identity and g = "''iVBORw0KGgo=''",
      THEN conjunct2, THEN conjunct2, rule_format, OF job]
  from thm1 obtain w' where
    w': "produce_scene veo_ok ''temp/veo_L1'' 2 (sample_scene 3) w0
           = Some (Done (sceneClipPath ''temp/veo_L1'' 2) w')"
        "trace w' = trace w0 @ scene_events ''temp/veo_L1'' 2 3 ''files/clip2''"
    by blast
  have ev: "map_option (trace \<circ> world_of) (produce_scene veo_ok ''temp/veo_L1'' 2 (sample_scene 3) w0) =
     Some [GenerateContent image_model, GenerateVideos veo_model,
           Sleep 10000, GetVideosOperation, Sleep 10000, GetVideosOperation,
           Sleep 10000, GetVideosOperation,
           Download ''files/clip2'' ''temp/veo_L1/scene_3.mp4'']"
    by (simp add: w' scene_events_def sceneClipPath_def path_defs numeral_3_eq_3)
  show ?thesis using ok ev thm2 thm3 veo_stuck_pending[of 0 7] by simp
qed


subsection \<open>A script of four scenes\<close>


lemma submissions_scene [simp]:
  "filter is_submission (scene_events tempDir i n video) = [GenerateVideos veo_model]"
proof -
  have "filter is_submission (concat (replicate n [Sleep 10000, GetVideosOperation])) = []"
    by (induction n) simp_all
  then show ?thesis by (simp add: scene_events_def)
qed






subsection \<open>The dedup marker of the slideshow pipeline\<close>













subsection \<open>Upload failures\<close>

text \<open>
  C2, evaluated. Every stage of the sample run succeeds but the upload, which the storage
  client answers with \<open>{ data: null, error }\<close>. None of the four pipelines reads that
  answer: each goes on to write the status \<open>ready\<close> with the public URL of an object
  the bucket does not hold.
\<close>

theorem refused_upload_marked_ready:
  "lessons (createVideo_run (slides_ok\<lparr>s_upload := Refused\<rparr>) ''L1'' w0) (SlideshowVideo, ''L1'')
     = Some Ready \<and>
   bucket (createVideo_run (slides_ok\<lparr>s_upload := Refused\<rparr>) ''L1'' w0) = {} \<and>
   lessons (createPodcast (podcast_ok\<lparr>p_upload := Refused\<rparr>) ''L1'' w0) (DialogueAudio, ''L1'')
     = Some Ready \<and>
   bucket (createPodcast (podcast_ok\<lparr>p_upload := Refused\<rparr>) ''L1'' w0) = {} \<and>
   lessons (createComic (comic_ok\<lparr>c_upload := (\<lambda>n. Refused)\<rparr>) ''L1'' w0) (IllustratedStory, ''L1'')
     = Some Ready \<and>
   bucket (createComic (comic_ok\<lparr>c_upload := (\<lambda>n. Refused)\<rparr>) ''L1'' w0) = {} \<and>
   map_option ((\<lambda>w. (lessons w (CinematicVideo, ''L1''), bucket w)) \<circ> world_of)
       (produceCinematicExplainer (veo_ok\<lparr>v_upload := Refused\<rparr>) ''L1'' ''S1'' w0)
     = Some (Some Ready, {})"
proof (intro conjI)
  show "lessons (createVideo_run (slides_ok\<lparr>s_upload := Refused\<rparr>) ''L1'' w0) (SlideshowVideo, ''L1'')
     = Some Ready"
    by (simp add: slides_defs eval_defs path_defs)
  show "bucket (createVideo_run (slides_ok\<lparr>s_upload := Refused\<rparr>) ''L1'' w0) = {}"
    by (simp add: slides_defs eval_defs path_defs)
  show "lessons (createPodcast (podcast_ok\<lparr>p_upload := Refused\<rparr>) ''L1'' w0) (DialogueAudio, ''L1'')
     = Some Ready"
    by (simp add: podcast_defs eval_defs path_defs)
  show "bucket (createPodcast (podcast_ok\<lparr>p_upload := Refused\<rparr>) ''L1'' w0) = {}"
    by (simp add: podcast_defs eval_defs path_defs)
  show "lessons (createComic (comic_ok\<lparr>c_upload := (\<lambda>n. Refused)\<rparr>) ''L1'' w0) (IllustratedStory, ''L1'')
     = Some Ready"
    by (simp add: comic_defs eval_defs path_defs)
  show "bucket (createComic (comic_ok\<lparr>c_upload := (\<lambda>n. Refused)\<rparr>) ''L1'' w0) = {}"
    by (simp add: comic_defs eval_defs path_defs)
  from veo_ok_run[of Refused w0] obtain w' where
    "produceCinematicExplainer (veo_ok\<lparr>v_upload := Refused\<rparr>) ''L1'' ''S1'' w0 = Some (Done () w')"
    "lessons w' = (lessons w0)((CinematicVideo, ''L1'') \<mapsto> Ready)" "bucket w' = bucket w0"
    by auto
  then show "map_option ((\<lambda>w. (lessons w (CinematicVideo, ''L1''), bucket w)) \<circ> world_of)
       (produceCinematicExplainer (veo_ok\<lparr>v_upload := Refused\<rparr>) ''L1'' ''S1'' w0)
     = Some (Some Ready, {})"
    by simp
qed


subsection \<open>Failures after the slideshow call has settled\<close>

text \<open>
  C3, evaluated. The stitcher of \<open>createVideo\<close> runs after the \<open>try\<close> block has been
  left. When it fails, its \<open>'error'\<close> handler throws where nothing catches; when the upload
  rejects, the \<open>async\<close> \<open>'end'\<close> handler rejects where nothing awaits. In both runs the
  status stays \<open>processing\<close> and the lesson stays in \<open>processingQueue\<close>.
\<close>

theorem stitch_failure_stays_processing:
  "lessons (createVideo_run (slides_ok\<lparr>s_stitch := False\<rparr>) ''L1'' w0) (SlideshowVideo, ''L1'')
     = Some Processing \<and>
   ''L1'' \<in> processingQueue (createVideo_run (slides_ok\<lparr>s_stitch := False\<rparr>) ''L1'' w0) \<and>
   lessons (createVideo_run (slides_ok\<lparr>s_upload := Failure\<rparr>) ''L1'' w0) (SlideshowVideo, ''L1'')
     = Some Processing \<and>
   ''L1'' \<in> processingQueue (createVideo_run (slides_ok\<lparr>s_upload := Failure\<rparr>) ''L1'' w0)"
  by (simp add: slides_defs eval_defs path_defs)


subsection \<open>A reply without a text part\<close>



subsection \<open>Replies that are not JSON\<close>






subsection \<open>The scratch directory after a failure\<close>

lemma path_join_neq [simp]: "path_join dir name \<noteq> dir" "dir \<noteq> path_join dir name"
proof -
  have "length (path_join dir name) \<noteq> length dir" by (simp add: path_join_def)
  then show "path_join dir name \<noteq> dir" "dir \<noteq> path_join dir name" by auto
qed






















subsection \<open>Acquiring the scratch directory\<close>







subsection \<open>Sanitised slide text\<close>

lemma safe_char_clean: "list_all safe_char (clean s)"
  by (induction s) (simp_all add: clean_def safe_char_def)

lemma all_bullets_clean: "list_all (list_all safe_char) (map clean bullets)"
  by (induction bullets) (simp_all add: safe_char_clean)

lemma filter_breaking_clean: "filter breaking_char (clean s) = []"
  by (induction s) (auto simp: clean_def breaking_char_def safe_char_def Let_def)

lemma bullet_filters_skeleton:
  "filter breaking_char (bullet_filters font idx (map clean bs)) =
   filter breaking_char (bullet_filters font idx (map clean (map (\<lambda>b. []) bs)))"
  by (induction bs arbitrary: idx) (simp_all add: bullet_filter_def filter_breaking_clean)

text \<open>
  C7. The title and every bullet are inserted into the drawtext filters only after
  \<open>clean\<close>, whose result holds nothing but letters, digits and spaces. So whatever the
  title and the bullets are, the syntax characters of the complex filter are exactly
  those of the filter built for an empty title and as many empty bullets: the text
  contributes no quote, colon, bracket or other character the filter graph reads as
  syntax. (The bullet sign and the space after it belong to the template, not to the text.)
\<close>

theorem drawtext_text_sanitised:
  "list_all safe_char (clean title) \<and>
   list_all (list_all safe_char) (map clean bullets) \<and>
   filter breaking_char (filterComplex font title bullets) =
     filter breaking_char (filterComplex font [] (map (\<lambda>b. []) bullets))"
  apply (intro conjI)
    apply (rule safe_char_clean)
   apply (rule all_bullets_clean)
  apply (simp only: filterComplex_def drawtextFilters_def title_filter_def filter_append
                    filter_breaking_clean bullet_filters_skeleton[of font 0 bullets])
  done

end
